theory Spec2Isabelle
  imports Main "HOL-Library.Char_ord" "HOL-Library.List_Lexorder"
begin

section \<open>Strings and formatting\<close>

text \<open>
  Go strings are byte sequences; a \<^typ>\<open>string\<close> here is the UTF-8 byte sequence of the Go
  literal. Non-ASCII literals of the source (the bot speaks Russian) are written byte by
  byte, with an English gloss beside them.
\<close>

fun hasPrefix :: "string \<Rightarrow> string \<Rightarrow> bool" where
  "hasPrefix s [] = True"
| "hasPrefix [] (p # ps) = False"
| "hasPrefix (c # s) (p # ps) = (c = p \<and> hasPrefix s ps)"

text \<open>\<^verbatim>\<open>strings.Contains(s, sub)\<close>.\<close>

fun strContains :: "string \<Rightarrow> string \<Rightarrow> bool" where
  "strContains [] sub = hasPrefix [] sub"
| "strContains (c # s) sub = (hasPrefix (c # s) sub \<or> strContains s sub)"

text \<open>\<^verbatim>\<open>strings.SplitN(s, ":", 2)\<close>: the text before the first colon, and the text after it
  when there is a colon.\<close>

fun splitColon :: "string \<Rightarrow> string \<times> string option" where
  "splitColon [] = ([], None)"
| "splitColon (c # s) =
     (if c = CHR '':'' then ([], Some s)
      else (case splitColon s of (a, b) \<Rightarrow> (c # a, b)))"

definition digitChar :: "nat \<Rightarrow> char" where
  "digitChar d = ''0123456789'' ! d"

fun natDigits :: "nat \<Rightarrow> string" where
  "natDigits n = (if n < 10 then [digitChar n] else natDigits (n div 10) @ [digitChar (n mod 10)])"

declare natDigits.simps [simp del]

text \<open>The verb \<^verbatim>\<open>%d\<close> of \<^verbatim>\<open>fmt.Sprintf\<close> on an integer.\<close>

definition fmtInt :: "int \<Rightarrow> string" where
  "fmtInt i = (if i < 0 then CHR ''-'' # natDigits (nat (- i)) else natDigits (nat i))"

section \<open>Data model\<close>

subsection \<open>Survey schema (package config)\<close>

record ButtonOption =
  Text :: string
  Value :: string

text \<open>
  The rating and label fields are the ones \<^verbatim>\<open>TextRatingStrategy\<close> reads from a question
  (\<^verbatim>\<open>rating_min\<close>, \<^verbatim>\<open>rating_max\<close>, \<^verbatim>\<open>next_button_label\<close>, \<^verbatim>\<open>finish_button_label\<close> in the
  YAML); a Go \<^verbatim>\<open>int\<close> that was not configured is 0.
\<close>

record QuestionConfig =
  qID :: string
  Prompt :: string
  Type :: string
  StoreKey :: string
  Options :: "ButtonOption list"
  RatingMin :: int
  RatingMax :: int
  NextButtonLabel :: string
  FinishButtonLabel :: string

record SectionConfig =
  Title :: string
  Questions :: "QuestionConfig list"

text \<open>A Go map that may be \<^verbatim>\<open>nil\<close> is an optional map: \<open>None\<close> is the nil map.\<close>

record RecordConfig =
  Sections :: "(string \<rightharpoonup> SectionConfig) option"
  Metadata :: "(string \<rightharpoonup> string) option"

definition zeroSection :: SectionConfig where
  "zeroSection = \<lparr>Title = [], Questions = []\<rparr>"

text \<open>\<^verbatim>\<open>rc.Sections[id]\<close> and the two-valued form \<^verbatim>\<open>conf, ok := rc.Sections[id]\<close>: a missing
  key (or a nil map) reads as the zero value.\<close>

definition sectionsMap :: "RecordConfig \<Rightarrow> (string \<rightharpoonup> SectionConfig)" where
  "sectionsMap rc = (case Sections rc of None \<Rightarrow> Map.empty | Some m \<Rightarrow> m)"

definition sectionAt :: "RecordConfig \<Rightarrow> string \<Rightarrow> SectionConfig" where
  "sectionAt rc sid = (case sectionsMap rc sid of None \<Rightarrow> zeroSection | Some s \<Rightarrow> s)"

text \<open>
  Go leaves the iteration order of a map unspecified and randomises it: every \<^verbatim>\<open>range\<close>
  over \<^verbatim>\<open>rc.Sections\<close> yields the keys in an order of the runtime's choosing. The order a
  \<^verbatim>\<open>range\<close> takes is therefore an input of the model; it is admissible when it lists every
  key once.
\<close>

definition rangeOrderOf :: "RecordConfig \<Rightarrow> string list \<Rightarrow> bool" where
  "rangeOrderOf rc ks \<longleftrightarrow> distinct ks \<and> set ks = dom (sectionsMap rc)"

subsection \<open>Outbound port (package botport)\<close>

record BotMessage =
  ChatID :: int
  MessageID :: int
  Transport :: string
  Payload :: string
  Meta :: "(string \<rightharpoonup> string) option"

definition zeroBotMessage :: BotMessage where
  "zeroBotMessage = \<lparr>ChatID = 0, MessageID = 0, Transport = [], Payload = [], Meta = None\<rparr>"

text \<open>\<open>Wrapped\<close> holds the text of the wrapped error, \<open>None\<close> when there is none.\<close>

record BotError =
  Op :: string
  Code :: string
  RetryAfter :: int
  Wrapped :: "string option"

text \<open>A Go \<^verbatim>\<open>error\<close> returned by a port: a \<^verbatim>\<open>*BotError\<close>, or any other error with its text.\<close>

datatype go_error = BotErr BotError | PlainErr string

text \<open>\<^verbatim>\<open>(*BotError).Error\<close> and \<^verbatim>\<open>err.Error()\<close>.\<close>

definition botErrorText :: "BotError \<Rightarrow> string" where
  "botErrorText e =
     (case Wrapped e of
        Some w \<Rightarrow> Op e @ '': '' @ Code e @ '': '' @ w
      | None \<Rightarrow> Op e @ '': '' @ Code e)"

fun errorText :: "go_error \<Rightarrow> string" where
  "errorText (BotErr e) = botErrorText e"
| "errorText (PlainErr s) = s"

text \<open>\<^verbatim>\<open>botport.IsCode\<close>, called on a non-nil error.\<close>

fun IsCode :: "go_error \<Rightarrow> string \<Rightarrow> bool" where
  "IsCode (BotErr e) code = (Code e = code)"
| "IsCode (PlainErr s) code = False"

datatype button = ButtonData string string

datatype markup =
    NilMarkup
  | InlineKeyboard "button list list"
  | ReplyKeyboard "string list list"
  | RemoveKeyboard

datatype call =
    SendMessageCall int string markup
  | EditMessageCall int int string markup
  | AnswerCallbackCall string string

text \<open>
  A port is any implementation of \<^verbatim>\<open>BotPort\<close>. The engine sees of it only what each call
  returns, so a port is modelled by the answers it gives, call by call (\<open>replies p n\<close> is
  what the \<open>n\<close>-th call made on the port returns: an error, or the message handle), and
  by the record \<open>calls\<close> of the calls made so far. A call that fails returns the zero
  \<^verbatim>\<open>BotMessage\<close> beside its error, as both adapters of the repository do.
\<close>

record port =
  calls :: "call list"
  replies :: "nat \<Rightarrow> go_error + BotMessage"

definition portCall :: "port \<Rightarrow> call \<Rightarrow> (go_error + BotMessage) \<times> port" where
  "portCall p c = (replies p (length (calls p)), p\<lparr>calls := calls p @ [c]\<rparr>)"

definition SendMessage :: "port \<Rightarrow> int \<Rightarrow> string \<Rightarrow> markup \<Rightarrow> (go_error + BotMessage) \<times> port" where
  "SendMessage p chatID text mk = portCall p (SendMessageCall chatID text mk)"

definition EditMessage ::
  "port \<Rightarrow> int \<Rightarrow> int \<Rightarrow> string \<Rightarrow> markup \<Rightarrow> (go_error + BotMessage) \<times> port" where
  "EditMessage p chatID messageID text mk = portCall p (EditMessageCall chatID messageID text mk)"

definition AnswerCallback :: "port \<Rightarrow> string \<Rightarrow> string \<Rightarrow> go_error option \<times> port" where
  "AnswerCallback p callbackID text =
     (case portCall p (AnswerCallbackCall callbackID text) of
        (Inl e, p') \<Rightarrow> (Some e, p')
      | (Inr m, p') \<Rightarrow> (None, p'))"

subsection \<open>User state (package state)\<close>

text \<open>
  A \<^verbatim>\<open>time.Time\<close> is its number of nanoseconds since the Unix epoch; \<open>zeroTime\<close> is the
  zero value of the type (1 January of year 1, UTC), the instant \<^verbatim>\<open>IsZero\<close> recognises.
\<close>

type_synonym gotime = int

definition zeroTime :: gotime where
  "zeroTime = - 62135596800 * 1000000000"

definition IsZero :: "gotime \<Rightarrow> bool" where
  "IsZero t \<longleftrightarrow> t = zeroTime"

record Record =
  ID :: string
  Data :: "(string \<rightharpoonup> string) option"
  IsSaved :: bool
  CreatedAt :: gotime

datatype main_state = StateIdle | StateViewingList

datatype record_state = StateRecordIdle | StateSelectingSection | StateAnsweringQuestion

text \<open>
  The state holds pointers to records (\<^verbatim>\<open>[]*Record\<close>, \<^verbatim>\<open>*Record\<close>): a pointer is an
  address or nil, and \<open>heap\<close> gives the record each address holds, so that two pointers
  to one record are one address, as \<^verbatim>\<open>r == forwarded\<close> in \<^verbatim>\<open>clearUserAnswers\<close> needs.
  \<open>nextRef\<close> is the address the next \<^verbatim>\<open>NewRecord()\<close> returns. The two FSM fields hold the
  current state of each machine. The mutex \<^verbatim>\<open>Mu\<close> is held by the dispatcher for the whole
  of every call modelled here and is left out.
\<close>

type_synonym ref = nat

record UserState =
  UserID :: int
  UserName :: string
  Records :: "ref option list"
  MainMenuFSM :: main_state
  RecordFSM :: record_state
  CurrentRecord :: "ref option"
  CurrentSection :: string
  CurrentQuestion :: int
  LastMessageID :: int
  LastPrompt :: BotMessage
  ListOffset :: int
  heap :: "ref \<Rightarrow> Record"
  nextRef :: ref

type_synonym world = "UserState \<times> port"

text \<open>A run-time panic of the Go program, with its message.\<close>

datatype gopanic = Panic string

subsection \<open>Question strategies (package questions)\<close>

record PromptSpec =
  psText :: string
  Keyboard :: "button list list option"
  ForceNew :: bool

datatype AnswerInputSource = InputSourceText | InputSourceCallback

record AnswerInput =
  Source :: AnswerInputSource
  inText :: string
  CallbackData :: string
  inMessageID :: int

record AnswerResult =
  Advance :: bool
  Repeat :: bool
  Feedback :: string

text \<open>
  \<^verbatim>\<open>RenderContext\<close> and \<^verbatim>\<open>AnswerContext\<close> (which embeds it). Their fields \<^verbatim>\<open>Bot\<close> and
  \<^verbatim>\<open>UserState\<close> are pointers to the port and to the user state: a strategy reaches both,
  so the model hands it the pair of them (a \<^typ>\<open>world\<close>) and takes back the pair it leaves.
\<close>

record RenderContext =
  ctxLastPrompt :: BotMessage
  ctxChatID :: int
  ctxMessageID :: int
  ctxRecord :: "ref option"
  ctxSectionID :: string
  ctxSection :: SectionConfig
  ctxQuestion :: QuestionConfig
  ctxCallbackPrefix :: string

record AnswerContext = RenderContext +
  ctxMessage :: BotMessage
  ctxCallbackID :: string

text \<open>The interface \<^verbatim>\<open>QuestionStrategy\<close>.\<close>

record strategy =
  sName :: string
  sValidate :: "string \<Rightarrow> QuestionConfig \<Rightarrow> go_error option"
  sRender :: "RenderContext \<Rightarrow> world \<Rightarrow> (go_error + PromptSpec) \<times> world"
  sHandleAnswer :: "AnswerContext \<Rightarrow> AnswerInput \<Rightarrow> world \<Rightarrow> (go_error + AnswerResult) \<times> world"

subsection \<open>Forward payload (forward.go)\<close>

record forwardQuestion =
  fqPrompt :: string
  fqAnswer :: string

record forwardSection =
  fsTitle :: string
  fsQuestions :: "forwardQuestion list"

record forwardPayload =
  fpUserID :: int
  fpUserName :: string
  fpCreatedAt :: string
  fpSections :: "forwardSection list"

subsection \<open>What a dispatch takes from outside the engine\<close>

text \<open>
  The clock, the standard library's time layout and string functions, the process-wide
  variables (the target identifier, the template \<^verbatim>\<open>forwardTpl\<close>, the strategy registry)
  and the order the runtime gives the \<^verbatim>\<open>range\<close> over the sections in this dispatch.
  \<open>showSectionSelectionMenu\<close> stands for the function of that name, which
  \<^verbatim>\<open>resetCurrentRecord\<close> calls and whose body is not among the source files; its arguments
  here are the chat and message identifiers.
\<close>

record env =
  now :: gotime
  formatTime :: "string \<Rightarrow> gotime \<Rightarrow> string"
  rangeOrder :: "string list"
  forwardTpl :: "forwardPayload \<Rightarrow> go_error + string"
  targetUserID :: int
  registry :: "string \<rightharpoonup> strategy"
  toLower :: "string \<Rightarrow> string"
  trimSpace :: "string \<Rightarrow> string"
  runesOf :: "string \<Rightarrow> nat list"
  stringOfRunes :: "nat list \<Rightarrow> string"
  showSectionSelectionMenu :: "int \<Rightarrow> int \<Rightarrow> world \<Rightarrow> world"

section \<open>Forward pipeline (forward.go)\<close>

definition noAnswerPlaceholder :: string where
  "noAnswerPlaceholder = ''no_answer''"

definition msgNoAnswersToSend :: string where
  \<comment> \<open>"No answers to send."\<close>
  "msgNoAnswersToSend =
     [CHR 0xD0, CHR 0x9D, CHR 0xD0, CHR 0xB5, CHR 0xD1, CHR 0x82] @ '' '' @ [CHR 0xD0, CHR 0xBE,
     CHR 0xD1, CHR 0x82, CHR 0xD0, CHR 0xB2, CHR 0xD0, CHR 0xB5, CHR 0xD1, CHR 0x82, CHR 0xD0,
     CHR 0xBE, CHR 0xD0, CHR 0xB2] @ '' '' @ [CHR 0xD0, CHR 0xB4, CHR 0xD0, CHR 0xBB, CHR 0xD1,
     CHR 0x8F] @ '' '' @ [CHR 0xD0, CHR 0xBE, CHR 0xD1, CHR 0x82, CHR 0xD0, CHR 0xBF, CHR 0xD1,
     CHR 0x80, CHR 0xD0, CHR 0xB0, CHR 0xD0, CHR 0xB2, CHR 0xD0, CHR 0xBA, CHR 0xD0, CHR 0xB8] @
     ''.''"

definition msgTargetNotConfigured :: string where
  \<comment> \<open>"TARGET_USER_ID is not configured, sending is unavailable."\<close>
  "msgTargetNotConfigured =
     [CHR 0xD0, CHR 0x9D, CHR 0xD0, CHR 0xB5] @ '' '' @ [CHR 0xD0, CHR 0xBD, CHR 0xD0, CHR 0xB0,
     CHR 0xD1, CHR 0x81, CHR 0xD1, CHR 0x82, CHR 0xD1, CHR 0x80, CHR 0xD0, CHR 0xBE, CHR 0xD0,
     CHR 0xB5, CHR 0xD0, CHR 0xBD] @ '' TARGET_USER_ID, '' @ [CHR 0xD0, CHR 0xBE, CHR 0xD1,
     CHR 0x82, CHR 0xD0, CHR 0xBF, CHR 0xD1, CHR 0x80, CHR 0xD0, CHR 0xB0, CHR 0xD0, CHR 0xB2,
     CHR 0xD0, CHR 0xBA, CHR 0xD0, CHR 0xB0] @ '' '' @ [CHR 0xD0, CHR 0xBD, CHR 0xD0, CHR 0xB5,
     CHR 0xD0, CHR 0xB4, CHR 0xD0, CHR 0xBE, CHR 0xD1, CHR 0x81, CHR 0xD1, CHR 0x82, CHR 0xD1,
     CHR 0x83, CHR 0xD0, CHR 0xBF, CHR 0xD0, CHR 0xBD, CHR 0xD0, CHR 0xB0] @ ''.''"

definition msgRenderFailed :: string where
  \<comment> \<open>"Could not build the message to send."\<close>
  "msgRenderFailed =
     [CHR 0xD0, CHR 0x9D, CHR 0xD0, CHR 0xB5] @ '' '' @ [CHR 0xD1, CHR 0x83, CHR 0xD0, CHR 0xB4,
     CHR 0xD0, CHR 0xB0, CHR 0xD0, CHR 0xBB, CHR 0xD0, CHR 0xBE, CHR 0xD1, CHR 0x81, CHR 0xD1,
     CHR 0x8C] @ '' '' @ [CHR 0xD1, CHR 0x81, CHR 0xD1, CHR 0x84, CHR 0xD0, CHR 0xBE, CHR 0xD1,
     CHR 0x80, CHR 0xD0, CHR 0xBC, CHR 0xD0, CHR 0xB8, CHR 0xD1, CHR 0x80, CHR 0xD0, CHR 0xBE,
     CHR 0xD0, CHR 0xB2, CHR 0xD0, CHR 0xB0, CHR 0xD1, CHR 0x82, CHR 0xD1, CHR 0x8C] @ '' '' @
     [CHR 0xD1, CHR 0x81, CHR 0xD0, CHR 0xBE, CHR 0xD0, CHR 0xBE, CHR 0xD0, CHR 0xB1, CHR 0xD1,
     CHR 0x89, CHR 0xD0, CHR 0xB5, CHR 0xD0, CHR 0xBD, CHR 0xD0, CHR 0xB8, CHR 0xD0, CHR 0xB5] @
     '' '' @ [CHR 0xD0, CHR 0xB4, CHR 0xD0, CHR 0xBB, CHR 0xD1, CHR 0x8F] @ '' '' @ [CHR 0xD0,
     CHR 0xBE, CHR 0xD1, CHR 0x82, CHR 0xD0, CHR 0xBF, CHR 0xD1, CHR 0x80, CHR 0xD0, CHR 0xB0,
     CHR 0xD0, CHR 0xB2, CHR 0xD0, CHR 0xBA, CHR 0xD0, CHR 0xB8] @ ''.''"

definition msgNoDataToSend :: string where
  \<comment> \<open>"No data to send."\<close>
  "msgNoDataToSend =
     [CHR 0xD0, CHR 0x9D, CHR 0xD0, CHR 0xB5, CHR 0xD1, CHR 0x82] @ '' '' @ [CHR 0xD0, CHR 0xB4,
     CHR 0xD0, CHR 0xB0, CHR 0xD0, CHR 0xBD, CHR 0xD0, CHR 0xBD, CHR 0xD1, CHR 0x8B, CHR 0xD1,
     CHR 0x85] @ '' '' @ [CHR 0xD0, CHR 0xB4, CHR 0xD0, CHR 0xBB, CHR 0xD1, CHR 0x8F] @ '' '' @
     [CHR 0xD0, CHR 0xBE, CHR 0xD1, CHR 0x82, CHR 0xD0, CHR 0xBF, CHR 0xD1, CHR 0x80, CHR 0xD0,
     CHR 0xB0, CHR 0xD0, CHR 0xB2, CHR 0xD0, CHR 0xBA, CHR 0xD0, CHR 0xB8] @ ''.''"

definition msgForwardFailed :: string where
  \<comment> \<open>"Could not send the answers, try again later."\<close>
  "msgForwardFailed =
     [CHR 0xD0, CHR 0x9D, CHR 0xD0, CHR 0xB5] @ '' '' @ [CHR 0xD1, CHR 0x83, CHR 0xD0, CHR 0xB4,
     CHR 0xD0, CHR 0xB0, CHR 0xD0, CHR 0xBB, CHR 0xD0, CHR 0xBE, CHR 0xD1, CHR 0x81, CHR 0xD1,
     CHR 0x8C] @ '' '' @ [CHR 0xD0, CHR 0xBE, CHR 0xD1, CHR 0x82, CHR 0xD0, CHR 0xBF, CHR 0xD1,
     CHR 0x80, CHR 0xD0, CHR 0xB0, CHR 0xD0, CHR 0xB2, CHR 0xD0, CHR 0xB8, CHR 0xD1, CHR 0x82,
     CHR 0xD1, CHR 0x8C] @ '' '' @ [CHR 0xD0, CHR 0xBE, CHR 0xD1, CHR 0x82, CHR 0xD0, CHR 0xB2,
     CHR 0xD0, CHR 0xB5, CHR 0xD1, CHR 0x82, CHR 0xD1, CHR 0x8B] @ '', '' @ [CHR 0xD0, CHR 0xBF,
     CHR 0xD0, CHR 0xBE, CHR 0xD0, CHR 0xBF, CHR 0xD1, CHR 0x80, CHR 0xD0, CHR 0xBE, CHR 0xD0,
     CHR 0xB1, CHR 0xD1, CHR 0x83, CHR 0xD0, CHR 0xB9, CHR 0xD1, CHR 0x82, CHR 0xD0, CHR 0xB5] @
     '' '' @ [CHR 0xD0, CHR 0xBF, CHR 0xD0, CHR 0xBE, CHR 0xD0, CHR 0xB7, CHR 0xD0, CHR 0xB6,
     CHR 0xD0, CHR 0xB5] @ ''.''"

definition msgSentToIDPrefix :: string where
  \<comment> \<open>"Answers sent to ID " (the text before the number)\<close>
  "msgSentToIDPrefix =
     [CHR 0xD0, CHR 0x9E, CHR 0xD1, CHR 0x82, CHR 0xD0, CHR 0xB2, CHR 0xD0, CHR 0xB5, CHR 0xD1,
     CHR 0x82, CHR 0xD1, CHR 0x8B] @ '' '' @ [CHR 0xD0, CHR 0xBE, CHR 0xD1, CHR 0x82, CHR 0xD0,
     CHR 0xBF, CHR 0xD1, CHR 0x80, CHR 0xD0, CHR 0xB0, CHR 0xD0, CHR 0xB2, CHR 0xD0, CHR 0xBB,
     CHR 0xD0, CHR 0xB5, CHR 0xD0, CHR 0xBD, CHR 0xD1, CHR 0x8B] @ '' '' @ [CHR 0xD0, CHR 0xBD,
     CHR 0xD0, CHR 0xB0] @ '' ID ''"

definition msgSentToSelf :: string where
  \<comment> \<open>"The answers were sent to you in this chat."\<close>
  "msgSentToSelf =
     [CHR 0xD0, CHR 0x9E, CHR 0xD1, CHR 0x82, CHR 0xD0, CHR 0xB2, CHR 0xD0, CHR 0xB5, CHR 0xD1,
     CHR 0x82, CHR 0xD1, CHR 0x8B] @ '' '' @ [CHR 0xD0, CHR 0xBE, CHR 0xD1, CHR 0x82, CHR 0xD0,
     CHR 0xBF, CHR 0xD1, CHR 0x80, CHR 0xD0, CHR 0xB0, CHR 0xD0, CHR 0xB2, CHR 0xD0, CHR 0xBB,
     CHR 0xD0, CHR 0xB5, CHR 0xD0, CHR 0xBD, CHR 0xD1, CHR 0x8B] @ '' '' @ [CHR 0xD0, CHR 0xB2,
     CHR 0xD0, CHR 0xB0, CHR 0xD0, CHR 0xBC] @ '' '' @ [CHR 0xD0, CHR 0xB2] @ '' '' @ [CHR 0xD1,
     CHR 0x8D, CHR 0xD1, CHR 0x82, CHR 0xD0, CHR 0xBE, CHR 0xD1, CHR 0x82] @ '' '' @ [CHR 0xD1,
     CHR 0x87, CHR 0xD0, CHR 0xB0, CHR 0xD1, CHR 0x82] @ ''.''"

definition tplUserAnswers :: string where
  \<comment> \<open>"Answers of user " (template header)\<close>
  "tplUserAnswers =
     [CHR 0xD0, CHR 0x9E, CHR 0xD1, CHR 0x82, CHR 0xD0, CHR 0xB2, CHR 0xD0, CHR 0xB5, CHR 0xD1,
     CHR 0x82, CHR 0xD1, CHR 0x8B] @ '' '' @ [CHR 0xD0, CHR 0xBF, CHR 0xD0, CHR 0xBE, CHR 0xD0,
     CHR 0xBB, CHR 0xD1, CHR 0x8C, CHR 0xD0, CHR 0xB7, CHR 0xD0, CHR 0xBE, CHR 0xD0, CHR 0xB2,
     CHR 0xD0, CHR 0xB0, CHR 0xD1, CHR 0x82, CHR 0xD0, CHR 0xB5, CHR 0xD0, CHR 0xBB, CHR 0xD1,
     CHR 0x8F] @ '' ''"

definition tplRecordDate :: string where
  \<comment> \<open>"Record date: " (template header)\<close>
  "tplRecordDate =
     [CHR 0xD0, CHR 0x94, CHR 0xD0, CHR 0xB0, CHR 0xD1, CHR 0x82, CHR 0xD0, CHR 0xB0] @ '' '' @
     [CHR 0xD0, CHR 0xB7, CHR 0xD0, CHR 0xB0, CHR 0xD0, CHR 0xBF, CHR 0xD0, CHR 0xB8, CHR 0xD1,
     CHR 0x81, CHR 0xD0, CHR 0xB8] @ '': ''"

text \<open>The success texts the two entry points pass to \<^verbatim>\<open>forwardWithTarget\<close>.\<close>

definition successTextTarget :: "int \<Rightarrow> string" where
  "successTextTarget i = msgSentToIDPrefix @ fmtInt i @ ''.''"

definition successTextSelf :: "int \<Rightarrow> string" where
  "successTextSelf i = msgSentToSelf"

text \<open>The loop of \<^verbatim>\<open>selectRecordForForward\<close>, from the last record down to the first.\<close>

fun lastSavedIn :: "(ref \<Rightarrow> Record) \<Rightarrow> ref option list \<Rightarrow> ref option" where
  "lastSavedIn h [] = None"
| "lastSavedIn h (None # rs) = lastSavedIn h rs"
| "lastSavedIn h (Some p # rs) = (if IsSaved (h p) then Some p else lastSavedIn h rs)"

definition selectRecordForForward :: "UserState \<Rightarrow> ref option" where
  "selectRecordForForward us =
     (case lastSavedIn (heap us) (rev (Records us)) of
        Some p \<Rightarrow> Some p
      | None \<Rightarrow> (case CurrentRecord us of Some p \<Rightarrow> Some p | None \<Rightarrow> None))"

text \<open>\<^verbatim>\<open>v, ok := r.Data[k]\<close>: nothing when the map is nil or has no such key.\<close>

definition dataAt :: "Record \<Rightarrow> string \<Rightarrow> string option" where
  "dataAt r k = (case Data r of None \<Rightarrow> None | Some d \<Rightarrow> d k)"

text \<open>The answer slot of one question: \<^verbatim>\<open>record.Data[q.StoreKey]\<close> when the record and its
  map are there (a missing key reads as the empty string), and the placeholder when that
  is the empty string.\<close>

definition forwardAnswer :: "Record option \<Rightarrow> QuestionConfig \<Rightarrow> string" where
  "forwardAnswer record q =
     (let answer = (case record of
                      None \<Rightarrow> []
                    | Some r \<Rightarrow> (case dataAt r (StoreKey q) of None \<Rightarrow> [] | Some v \<Rightarrow> v))
      in if answer = [] then noAnswerPlaceholder else answer)"

definition forwardSectionOf :: "RecordConfig \<Rightarrow> Record option \<Rightarrow> string \<Rightarrow> forwardSection" where
  "forwardSectionOf rc record sectionID =
     (let sectionConf = sectionAt rc sectionID
      in \<lparr>fsTitle = Title sectionConf,
          fsQuestions = map (\<lambda>q. \<lparr>fqPrompt = Prompt q, fqAnswer = forwardAnswer record q\<rparr>)
                            (Questions sectionConf)\<rparr>)"

text \<open>\<^verbatim>\<open>buildForwardPayload\<close>. \<^verbatim>\<open>sort.Strings\<close> orders the identifiers bytewise, which is the
  order of \<^typ>\<open>string\<close>. Reading \<^verbatim>\<open>record.CreatedAt\<close> through a nil pointer panics.\<close>

definition buildForwardPayload ::
  "env \<Rightarrow> RecordConfig \<Rightarrow> Record option \<Rightarrow> UserState \<Rightarrow> gopanic + forwardPayload" where
  "buildForwardPayload ev rc record us =
     (let sectionIDs = sort (rangeOrder ev);
          sections = map (forwardSectionOf rc record) sectionIDs
      in case record of
           None \<Rightarrow> Inl (Panic ''nil pointer dereference'')
         | Some r \<Rightarrow>
             (let created = (if IsZero (CreatedAt r) then now ev else CreatedAt r)
              in Inr \<lparr>fpUserID = UserID us, fpUserName = UserName us,
                      fpCreatedAt = formatTime ev ''02.01.2006 15:04'' created,
                      fpSections = sections\<rparr>))"

text \<open>The template the package variable \<^verbatim>\<open>forwardTpl\<close> is initialised with.\<close>

definition renderQuestion :: "forwardQuestion \<Rightarrow> string" where
  "renderQuestion q = ''- '' @ fqPrompt q @ '':'' @ [CHR 0x0A] @ ''  '' @ fqAnswer q @ [CHR 0x0A]"

definition renderSection :: "forwardSection \<Rightarrow> string" where
  "renderSection s =
     ''## '' @ fsTitle s @ [CHR 0x0A] @ concat (map renderQuestion (fsQuestions s)) @ [CHR 0x0A]"

definition defaultForwardTpl :: "forwardPayload \<Rightarrow> go_error + string" where
  "defaultForwardTpl p =
     Inr (tplUserAnswers @ fpUserName p @ '' (ID: '' @ fmtInt (fpUserID p) @ '')'' @ [CHR 0x0A]
          @ tplRecordDate @ fpCreatedAt p @ [CHR 0x0A]
          @ concat (map renderSection (fpSections p)))"

definition renderForwardMessage :: "env \<Rightarrow> forwardPayload \<Rightarrow> go_error + string" where
  "renderForwardMessage ev payload =
     (case forwardTpl ev payload of Inl err \<Rightarrow> Inl err | Inr text \<Rightarrow> Inr text)"

definition clearUserAnswers :: "UserState \<Rightarrow> ref \<Rightarrow> UserState" where
  "clearUserAnswers us forwarded =
     (let filtered = filter (\<lambda>r. r \<noteq> None \<and> r \<noteq> Some forwarded) (Records us);
          us1 = us\<lparr>Records := filtered\<rparr>;
          us2 = (if CurrentRecord us1 = Some forwarded then us1\<lparr>CurrentRecord := None\<rparr> else us1)
      in us2\<lparr>CurrentSection := [], CurrentQuestion := 0, LastMessageID := 0,
              LastPrompt := zeroBotMessage\<rparr>)"

definition forwardWithTarget ::
  "env \<Rightarrow> RecordConfig \<Rightarrow> int \<Rightarrow> int \<Rightarrow> bool \<Rightarrow> bool \<Rightarrow> (int \<Rightarrow> string) \<Rightarrow> world
     \<Rightarrow> gopanic + world" where
  "forwardWithTarget ev rc chatID targetID clearOnSuccess requireConfigured successText w =
     (case w of (us, p) \<Rightarrow>
      (case selectRecordForForward us of
         None \<Rightarrow> Inr (us, snd (SendMessage p chatID msgNoAnswersToSend NilMarkup))
       | Some record \<Rightarrow>
           if requireConfigured \<and> targetID = 0
           then Inr (us, snd (SendMessage p chatID msgTargetNotConfigured NilMarkup))
           else
             (case buildForwardPayload ev rc (Some (heap us record)) us of
                Inl pn \<Rightarrow> Inl pn
              | Inr payload \<Rightarrow>
                  (case renderForwardMessage ev payload of
                     Inl err \<Rightarrow> Inr (us, snd (SendMessage p chatID msgRenderFailed NilMarkup))
                   | Inr text \<Rightarrow>
                       if length text = 0
                       then Inr (us, snd (SendMessage p chatID msgNoDataToSend NilMarkup))
                       else
                         (case SendMessage p targetID text NilMarkup of
                            (Inl err, p1) \<Rightarrow>
                              Inr (us, snd (SendMessage p1 chatID msgForwardFailed NilMarkup))
                          | (Inr m, p1) \<Rightarrow>
                              (let us1 = (if clearOnSuccess then clearUserAnswers us record
                                          else us);
                                   confirmation = successText targetID
                               in Inr (us1, snd (SendMessage p1 chatID confirmation NilMarkup))))))))"

definition handleForwardToTarget ::
  "env \<Rightarrow> RecordConfig \<Rightarrow> int \<Rightarrow> int \<Rightarrow> bool \<Rightarrow> world \<Rightarrow> gopanic + world" where
  "handleForwardToTarget ev rc chatID targetID clearOnSuccess w =
     forwardWithTarget ev rc chatID targetID clearOnSuccess True successTextTarget w"

definition handleForwardAnsweredSections ::
  "env \<Rightarrow> RecordConfig \<Rightarrow> int \<Rightarrow> world \<Rightarrow> gopanic + world" where
  "handleForwardAnsweredSections ev rc chatID w =
     handleForwardToTarget ev rc chatID (targetUserID ev) False w"

definition handleForwardToSelf :: "env \<Rightarrow> RecordConfig \<Rightarrow> int \<Rightarrow> world \<Rightarrow> gopanic + world" where
  "handleForwardToSelf ev rc chatID w =
     forwardWithTarget ev rc chatID chatID False False successTextSelf w"

section \<open>The two state machines (package fsm)\<close>

datatype main_event = EventViewList | EventListNext | EventListBack | EventBackToIdle

datatype record_event =
    EventStartRecord
  | EventSelectSection
  | EventAnswerQuestion
  | EventSectionComplete
  | EventCancelSection
  | EventSaveFullRecord
  | EventExitToMainMenu
  | EventForceExit

text \<open>
  The machines are instances of the library \<^verbatim>\<open>looplab/fsm\<close>, a dependency of the
  repository. What the engine relies on, and what is modelled: \<^verbatim>\<open>Event\<close> looks the event
  up among the transitions leaving the current state; an event with none there is
  refused with an error and nothing happens; an event whose destination is the current
  state is refused with \<^verbatim>\<open>NoTransitionError\<close> and no \<^verbatim>\<open>enter_\<close> callback runs; otherwise the
  current state becomes the destination and then the destination's \<^verbatim>\<open>enter_\<close> callback
  runs, and it may itself fire an event on the machine.
\<close>

datatype fsm_error = InvalidEventError | NoTransitionError

text \<open>The table \<^verbatim>\<open>events\<close> of \<^verbatim>\<open>NewMainMenuFSM\<close>.\<close>

fun mainTransition :: "main_event \<Rightarrow> main_state \<Rightarrow> main_state option" where
  "mainTransition EventViewList StateIdle = Some StateViewingList"
| "mainTransition EventListNext StateViewingList = Some StateViewingList"
| "mainTransition EventListBack StateViewingList = Some StateViewingList"
| "mainTransition EventBackToIdle StateViewingList = Some StateIdle"
| "mainTransition _ _ = None"

text \<open>\<^verbatim>\<open>MainMenuFSM.Event\<close>; that machine has no callbacks.\<close>

definition MainMenuFSM_Event :: "main_event \<Rightarrow> UserState \<Rightarrow> fsm_error option \<times> UserState" where
  "MainMenuFSM_Event event us =
     (case mainTransition event (MainMenuFSM us) of
        None \<Rightarrow> (Some InvalidEventError, us)
      | Some dst \<Rightarrow>
          if dst = MainMenuFSM us then (Some NoTransitionError, us)
          else (None, us\<lparr>MainMenuFSM := dst\<rparr>))"

text \<open>The table \<^verbatim>\<open>events\<close> of \<^verbatim>\<open>NewRecordFSM\<close>.\<close>

fun recordTransition :: "record_event \<Rightarrow> record_state \<Rightarrow> record_state option" where
  "recordTransition EventStartRecord StateRecordIdle = Some StateSelectingSection"
| "recordTransition EventSelectSection StateSelectingSection = Some StateAnsweringQuestion"
| "recordTransition EventAnswerQuestion StateAnsweringQuestion = Some StateAnsweringQuestion"
| "recordTransition EventSectionComplete StateAnsweringQuestion = Some StateSelectingSection"
| "recordTransition EventCancelSection StateAnsweringQuestion = Some StateSelectingSection"
| "recordTransition EventSaveFullRecord StateSelectingSection = Some StateRecordIdle"
| "recordTransition EventExitToMainMenu StateSelectingSection = Some StateRecordIdle"
| "recordTransition EventForceExit StateSelectingSection = Some StateRecordIdle"
| "recordTransition EventForceExit StateAnsweringQuestion = Some StateRecordIdle"
| "recordTransition _ _ = None"

text \<open>\<^verbatim>\<open>isNoTransitionError\<close>, on a non-nil error.\<close>

fun isNoTransitionError :: "fsm_error \<Rightarrow> bool" where
  "isNoTransitionError NoTransitionError = True"
| "isNoTransitionError InvalidEventError = False"

section \<open>Main menu and list view\<close>

definition ButtonMainMenuShowRecord :: string where
  \<comment> \<open>"Show record". The constant's declaration is not among the source files; the label
      is the one docs/fsm.md lists for the reply keyboard.\<close>
  "ButtonMainMenuShowRecord =
     [CHR 0xD0, CHR 0x9F, CHR 0xD0, CHR 0xBE, CHR 0xD0, CHR 0xBA, CHR 0xD0, CHR 0xB0, CHR 0xD0,
     CHR 0xB7, CHR 0xD0, CHR 0xB0, CHR 0xD1, CHR 0x82, CHR 0xD1, CHR 0x8C] @ '' '' @ [CHR 0xD0,
     CHR 0xB7, CHR 0xD0, CHR 0xB0, CHR 0xD0, CHR 0xBF, CHR 0xD0, CHR 0xB8, CHR 0xD1, CHR 0x81,
     CHR 0xD1, CHR 0x8C]"

definition ButtonMainMenuFillRecord :: string where
  \<comment> \<open>"Fill record"\<close>
  "ButtonMainMenuFillRecord =
     [CHR 0xD0, CHR 0x97, CHR 0xD0, CHR 0xB0, CHR 0xD0, CHR 0xBF, CHR 0xD0, CHR 0xBE, CHR 0xD0,
     CHR 0xBB, CHR 0xD0, CHR 0xBD, CHR 0xD0, CHR 0xB8, CHR 0xD1, CHR 0x82, CHR 0xD1, CHR 0x8C] @
     '' '' @ [CHR 0xD0, CHR 0xB7, CHR 0xD0, CHR 0xB0, CHR 0xD0, CHR 0xBF, CHR 0xD0, CHR 0xB8,
     CHR 0xD1, CHR 0x81, CHR 0xD1, CHR 0x8C]"

definition ButtonMainMenuSendSelf :: string where
  \<comment> \<open>"Send to self"\<close>
  "ButtonMainMenuSendSelf =
     [CHR 0xD0, CHR 0x9E, CHR 0xD1, CHR 0x82, CHR 0xD0, CHR 0xBF, CHR 0xD1, CHR 0x80, CHR 0xD0,
     CHR 0xB0, CHR 0xD0, CHR 0xB2, CHR 0xD0, CHR 0xB8, CHR 0xD1, CHR 0x82, CHR 0xD1, CHR 0x8C] @
     '' '' @ [CHR 0xD0, CHR 0xA1, CHR 0xD0, CHR 0xB5, CHR 0xD0, CHR 0xB1, CHR 0xD0, CHR 0xB5]"

definition ButtonMainMenuSendTherapist :: string where
  \<comment> \<open>"Send to therapist"\<close>
  "ButtonMainMenuSendTherapist =
     [CHR 0xD0, CHR 0x9E, CHR 0xD1, CHR 0x82, CHR 0xD0, CHR 0xBF, CHR 0xD1, CHR 0x80, CHR 0xD0,
     CHR 0xB0, CHR 0xD0, CHR 0xB2, CHR 0xD0, CHR 0xB8, CHR 0xD1, CHR 0x82, CHR 0xD1, CHR 0x8C] @
     '' '' @ [CHR 0xD0, CHR 0xA2, CHR 0xD0, CHR 0xB5, CHR 0xD1, CHR 0x80, CHR 0xD0, CHR 0xB0,
     CHR 0xD0, CHR 0xBF, CHR 0xD0, CHR 0xB5, CHR 0xD0, CHR 0xB2, CHR 0xD1, CHR 0x82, CHR 0xD1,
     CHR 0x83]"

definition statsNameLabel :: string where
  \<comment> \<open>"(bust) Name: "\<close>
  "statsNameLabel =
     [CHR 0xF0, CHR 0x9F, CHR 0x91, CHR 0xA4] @ '' '' @ [CHR 0xD0, CHR 0x98, CHR 0xD0, CHR 0xBC,
     CHR 0xD1, CHR 0x8F] @ '': ''"

definition statsIDLabel :: string where
  \<comment> \<open>"(ID sign) ID: "\<close>
  "statsIDLabel =
     [CHR 0xF0, CHR 0x9F, CHR 0x86, CHR 0x94] @ '' ID: ''"

definition statsCountLabel :: string where
  \<comment> \<open>"(chart) Number of records: "\<close>
  "statsCountLabel =
     [CHR 0xF0, CHR 0x9F, CHR 0x93, CHR 0x8A] @ '' '' @ [CHR 0xD0, CHR 0x9A, CHR 0xD0, CHR 0xBE,
     CHR 0xD0, CHR 0xBB] @ ''-'' @ [CHR 0xD0, CHR 0xB2, CHR 0xD0, CHR 0xBE] @ '' '' @ [CHR 0xD0,
     CHR 0xB7, CHR 0xD0, CHR 0xB0, CHR 0xD0, CHR 0xBF, CHR 0xD0, CHR 0xB8, CHR 0xD1, CHR 0x81,
     CHR 0xD0, CHR 0xB5, CHR 0xD0, CHR 0xB9] @ '': ''"

definition msgChooseAction :: string where
  \<comment> \<open>"Choose an action:"\<close>
  "msgChooseAction =
     [CHR 0xD0, CHR 0x92, CHR 0xD1, CHR 0x8B, CHR 0xD0, CHR 0xB1, CHR 0xD0, CHR 0xB5, CHR 0xD1,
     CHR 0x80, CHR 0xD0, CHR 0xB8, CHR 0xD1, CHR 0x82, CHR 0xD0, CHR 0xB5] @ '' '' @ [CHR 0xD0,
     CHR 0xB4, CHR 0xD0, CHR 0xB5, CHR 0xD0, CHR 0xB9, CHR 0xD1, CHR 0x81, CHR 0xD1, CHR 0x82,
     CHR 0xD0, CHR 0xB2, CHR 0xD0, CHR 0xB8, CHR 0xD0, CHR 0xB5] @ '':''"

definition msgNoSavedRecords :: string where
  \<comment> \<open>"You have no saved records yet."\<close>
  "msgNoSavedRecords =
     [CHR 0xD0, CHR 0xA3] @ '' '' @ [CHR 0xD0, CHR 0xB2, CHR 0xD0, CHR 0xB0, CHR 0xD1,
     CHR 0x81] @ '' '' @ [CHR 0xD0, CHR 0xB5, CHR 0xD1, CHR 0x89, CHR 0xD0, CHR 0xB5] @ '' '' @
     [CHR 0xD0, CHR 0xBD, CHR 0xD0, CHR 0xB5, CHR 0xD1, CHR 0x82] @ '' '' @ [CHR 0xD1, CHR 0x81,
     CHR 0xD0, CHR 0xBE, CHR 0xD1, CHR 0x85, CHR 0xD1, CHR 0x80, CHR 0xD0, CHR 0xB0, CHR 0xD0,
     CHR 0xBD, CHR 0xD0, CHR 0xB5, CHR 0xD0, CHR 0xBD, CHR 0xD0, CHR 0xBD, CHR 0xD1, CHR 0x8B,
     CHR 0xD1, CHR 0x85] @ '' '' @ [CHR 0xD0, CHR 0xB7, CHR 0xD0, CHR 0xB0, CHR 0xD0, CHR 0xBF,
     CHR 0xD0, CHR 0xB8, CHR 0xD1, CHR 0x81, CHR 0xD0, CHR 0xB5, CHR 0xD0, CHR 0xB9] @ ''.''"

definition listHeaderPrefix :: string where
  \<comment> \<open>"(dividers) List of records ("\<close>
  "listHeaderPrefix =
     [CHR 0xF0, CHR 0x9F, CHR 0x97, CHR 0x82, CHR 0xEF, CHR 0xB8, CHR 0x8F] @ '' '' @ [CHR 0xD0,
     CHR 0xA1, CHR 0xD0, CHR 0xBF, CHR 0xD0, CHR 0xB8, CHR 0xD1, CHR 0x81, CHR 0xD0, CHR 0xBE,
     CHR 0xD0, CHR 0xBA] @ '' '' @ [CHR 0xD0, CHR 0xB7, CHR 0xD0, CHR 0xB0, CHR 0xD0, CHR 0xBF,
     CHR 0xD0, CHR 0xB8, CHR 0xD1, CHR 0x81, CHR 0xD0, CHR 0xB5, CHR 0xD0, CHR 0xB9] @ '' (''"

definition listHeaderOf :: string where
  \<comment> \<open>" of "\<close>
  "listHeaderOf =
     '' '' @ [CHR 0xD0, CHR 0xB8, CHR 0xD0, CHR 0xB7] @ '' ''"

definition msgNoRecordsOnPage :: string where
  \<comment> \<open>"No records on this page."\<close>
  "msgNoRecordsOnPage =
     [CHR 0xD0, CHR 0x9D, CHR 0xD0, CHR 0xB5, CHR 0xD1, CHR 0x82] @ '' '' @ [CHR 0xD0, CHR 0xB7,
     CHR 0xD0, CHR 0xB0, CHR 0xD0, CHR 0xBF, CHR 0xD0, CHR 0xB8, CHR 0xD1, CHR 0x81, CHR 0xD0,
     CHR 0xB5, CHR 0xD0, CHR 0xB9] @ '' '' @ [CHR 0xD0, CHR 0xBD, CHR 0xD0, CHR 0xB0] @ '' '' @
     [CHR 0xD1, CHR 0x8D, CHR 0xD1, CHR 0x82, CHR 0xD0, CHR 0xBE, CHR 0xD0, CHR 0xB9] @ '' '' @
     [CHR 0xD1, CHR 0x81, CHR 0xD1, CHR 0x82, CHR 0xD1, CHR 0x80, CHR 0xD0, CHR 0xB0, CHR 0xD0,
     CHR 0xBD, CHR 0xD0, CHR 0xB8, CHR 0xD1, CHR 0x86, CHR 0xD0, CHR 0xB5] @ ''.''"

definition listItemPrefix :: string where
  \<comment> \<open>"(pin) ID: ..."\<close>
  "listItemPrefix =
     [CHR 0xF0, CHR 0x9F, CHR 0x93, CHR 0x8C] @ '' ID: ...''"

definition listNameLabel :: string where
  \<comment> \<open>"   Name: "\<close>
  "listNameLabel =
     ''   '' @ [CHR 0xD0, CHR 0x98, CHR 0xD0, CHR 0xBC, CHR 0xD1, CHR 0x8F] @ '': ''"

definition listCityLabel :: string where
  \<comment> \<open>"   City: "\<close>
  "listCityLabel =
     ''   '' @ [CHR 0xD0, CHR 0x93, CHR 0xD0, CHR 0xBE, CHR 0xD1, CHR 0x80, CHR 0xD0, CHR 0xBE,
     CHR 0xD0, CHR 0xB4] @ '': ''"

definition btnListBack :: string where
  \<comment> \<open>"(left arrow) Back"\<close>
  "btnListBack =
     [CHR 0xE2, CHR 0xAC, CHR 0x85, CHR 0xEF, CHR 0xB8, CHR 0x8F] @ '' '' @ [CHR 0xD0, CHR 0x9D,
     CHR 0xD0, CHR 0xB0, CHR 0xD0, CHR 0xB7, CHR 0xD0, CHR 0xB0, CHR 0xD0, CHR 0xB4]"

definition btnListNext :: string where
  \<comment> \<open>"Forward (right arrow)"\<close>
  "btnListNext =
     [CHR 0xD0, CHR 0x92, CHR 0xD0, CHR 0xBF, CHR 0xD0, CHR 0xB5, CHR 0xD1, CHR 0x80, CHR 0xD0,
     CHR 0xB5, CHR 0xD0, CHR 0xB4] @ '' '' @ [CHR 0xE2, CHR 0x9E, CHR 0xA1, CHR 0xEF, CHR 0xB8,
     CHR 0x8F]"

definition btnListToMenu :: string where
  \<comment> \<open>"(up arrow) To the main menu"\<close>
  "btnListToMenu =
     [CHR 0xE2, CHR 0xAC, CHR 0x86, CHR 0xEF, CHR 0xB8, CHR 0x8F] @ '' '' @ [CHR 0xD0,
     CHR 0x92] @ '' '' @ [CHR 0xD0, CHR 0xB3, CHR 0xD0, CHR 0xBB, CHR 0xD0, CHR 0xB0, CHR 0xD0,
     CHR 0xB2, CHR 0xD0, CHR 0xBD, CHR 0xD0, CHR 0xBE, CHR 0xD0, CHR 0xB5] @ '' '' @ [CHR 0xD0,
     CHR 0xBC, CHR 0xD0, CHR 0xB5, CHR 0xD0, CHR 0xBD, CHR 0xD1, CHR 0x8E]"

definition msgSelectSection :: string where
  \<comment> \<open>"Choose a section to fill in or edit, or an action:"\<close>
  "msgSelectSection =
     [CHR 0xD0, CHR 0x92, CHR 0xD1, CHR 0x8B, CHR 0xD0, CHR 0xB1, CHR 0xD0, CHR 0xB5, CHR 0xD1,
     CHR 0x80, CHR 0xD0, CHR 0xB8, CHR 0xD1, CHR 0x82, CHR 0xD0, CHR 0xB5] @ '' '' @ [CHR 0xD1,
     CHR 0x81, CHR 0xD0, CHR 0xB5, CHR 0xD0, CHR 0xBA, CHR 0xD1, CHR 0x86, CHR 0xD0, CHR 0xB8,
     CHR 0xD1, CHR 0x8E] @ '' '' @ [CHR 0xD0, CHR 0xB4, CHR 0xD0, CHR 0xBB, CHR 0xD1, CHR 0x8F] @
     '' '' @ [CHR 0xD0, CHR 0xB7, CHR 0xD0, CHR 0xB0, CHR 0xD0, CHR 0xBF, CHR 0xD0, CHR 0xBE,
     CHR 0xD0, CHR 0xBB, CHR 0xD0, CHR 0xBD, CHR 0xD0, CHR 0xB5, CHR 0xD0, CHR 0xBD, CHR 0xD0,
     CHR 0xB8, CHR 0xD1, CHR 0x8F] @ ''/'' @ [CHR 0xD1, CHR 0x80, CHR 0xD0, CHR 0xB5, CHR 0xD0,
     CHR 0xB4, CHR 0xD0, CHR 0xB0, CHR 0xD0, CHR 0xBA, CHR 0xD1, CHR 0x82, CHR 0xD0, CHR 0xB8,
     CHR 0xD1, CHR 0x80, CHR 0xD0, CHR 0xBE, CHR 0xD0, CHR 0xB2, CHR 0xD0, CHR 0xB0, CHR 0xD0,
     CHR 0xBD, CHR 0xD0, CHR 0xB8, CHR 0xD1, CHR 0x8F] @ '' '' @ [CHR 0xD0, CHR 0xB8, CHR 0xD0,
     CHR 0xBB, CHR 0xD0, CHR 0xB8] @ '' '' @ [CHR 0xD0, CHR 0xB4, CHR 0xD0, CHR 0xB5, CHR 0xD0,
     CHR 0xB9, CHR 0xD1, CHR 0x81, CHR 0xD1, CHR 0x82, CHR 0xD0, CHR 0xB2, CHR 0xD0, CHR 0xB8,
     CHR 0xD0, CHR 0xB5] @ '':''"

definition checkMarkSuffix :: string where
  \<comment> \<open>" (check mark)"\<close>
  "checkMarkSuffix =
     '' '' @ [CHR 0xE2, CHR 0x9C, CHR 0x85]"

definition btnSaveRecord :: string where
  \<comment> \<open>"(floppy disk) Save record"\<close>
  "btnSaveRecord =
     [CHR 0xF0, CHR 0x9F, CHR 0x92, CHR 0xBE] @ '' '' @ [CHR 0xD0, CHR 0xA1, CHR 0xD0, CHR 0xBE,
     CHR 0xD1, CHR 0x85, CHR 0xD1, CHR 0x80, CHR 0xD0, CHR 0xB0, CHR 0xD0, CHR 0xBD, CHR 0xD0,
     CHR 0xB8, CHR 0xD1, CHR 0x82, CHR 0xD1, CHR 0x8C] @ '' '' @ [CHR 0xD0, CHR 0xB7, CHR 0xD0,
     CHR 0xB0, CHR 0xD0, CHR 0xBF, CHR 0xD0, CHR 0xB8, CHR 0xD1, CHR 0x81, CHR 0xD1, CHR 0x8C]"

definition btnExitMenu :: string where
  \<comment> \<open>"(up arrow) Exit to menu"\<close>
  "btnExitMenu =
     [CHR 0xE2, CHR 0xAC, CHR 0x86, CHR 0xEF, CHR 0xB8, CHR 0x8F] @ '' '' @ [CHR 0xD0, CHR 0x92,
     CHR 0xD1, CHR 0x8B, CHR 0xD0, CHR 0xB9, CHR 0xD1, CHR 0x82, CHR 0xD0, CHR 0xB8] @ '' '' @
     [CHR 0xD0, CHR 0xB2] @ '' '' @ [CHR 0xD0, CHR 0xBC, CHR 0xD0, CHR 0xB5, CHR 0xD0, CHR 0xBD,
     CHR 0xD1, CHR 0x8E]"

definition msgSectionConfigError :: string where
  \<comment> \<open>"Section configuration error."\<close>
  "msgSectionConfigError =
     [CHR 0xD0, CHR 0x9E, CHR 0xD1, CHR 0x88, CHR 0xD0, CHR 0xB8, CHR 0xD0, CHR 0xB1, CHR 0xD0,
     CHR 0xBA, CHR 0xD0, CHR 0xB0] @ '' '' @ [CHR 0xD0, CHR 0xBA, CHR 0xD0, CHR 0xBE, CHR 0xD0,
     CHR 0xBD, CHR 0xD1, CHR 0x84, CHR 0xD0, CHR 0xB8, CHR 0xD0, CHR 0xB3, CHR 0xD1, CHR 0x83,
     CHR 0xD1, CHR 0x80, CHR 0xD0, CHR 0xB0, CHR 0xD1, CHR 0x86, CHR 0xD0, CHR 0xB8, CHR 0xD0,
     CHR 0xB8] @ '' '' @ [CHR 0xD1, CHR 0x81, CHR 0xD0, CHR 0xB5, CHR 0xD0, CHR 0xBA, CHR 0xD1,
     CHR 0x86, CHR 0xD0, CHR 0xB8, CHR 0xD0, CHR 0xB8] @ ''.''"

definition msgQuestionNavError :: string where
  \<comment> \<open>"Question navigation error."\<close>
  "msgQuestionNavError =
     [CHR 0xD0, CHR 0x9E, CHR 0xD1, CHR 0x88, CHR 0xD0, CHR 0xB8, CHR 0xD0, CHR 0xB1, CHR 0xD0,
     CHR 0xBA, CHR 0xD0, CHR 0xB0] @ '' '' @ [CHR 0xD0, CHR 0xBD, CHR 0xD0, CHR 0xB0, CHR 0xD0,
     CHR 0xB2, CHR 0xD0, CHR 0xB8, CHR 0xD0, CHR 0xB3, CHR 0xD0, CHR 0xB0, CHR 0xD1, CHR 0x86,
     CHR 0xD0, CHR 0xB8, CHR 0xD0, CHR 0xB8] @ '' '' @ [CHR 0xD0, CHR 0xBF, CHR 0xD0, CHR 0xBE] @
     '' '' @ [CHR 0xD0, CHR 0xB2, CHR 0xD0, CHR 0xBE, CHR 0xD0, CHR 0xBF, CHR 0xD1, CHR 0x80,
     CHR 0xD0, CHR 0xBE, CHR 0xD1, CHR 0x81, CHR 0xD0, CHR 0xB0, CHR 0xD0, CHR 0xBC] @ ''.''"

definition msgUnknownQuestionType :: string where
  \<comment> \<open>"Unknown question type. Try again later."\<close>
  "msgUnknownQuestionType =
     [CHR 0xD0, CHR 0x9D, CHR 0xD0, CHR 0xB5, CHR 0xD0, CHR 0xB8, CHR 0xD0, CHR 0xB7, CHR 0xD0,
     CHR 0xB2, CHR 0xD0, CHR 0xB5, CHR 0xD1, CHR 0x81, CHR 0xD1, CHR 0x82, CHR 0xD0, CHR 0xBD,
     CHR 0xD1, CHR 0x8B, CHR 0xD0, CHR 0xB9] @ '' '' @ [CHR 0xD1, CHR 0x82, CHR 0xD0, CHR 0xB8,
     CHR 0xD0, CHR 0xBF] @ '' '' @ [CHR 0xD0, CHR 0xB2, CHR 0xD0, CHR 0xBE, CHR 0xD0, CHR 0xBF,
     CHR 0xD1, CHR 0x80, CHR 0xD0, CHR 0xBE, CHR 0xD1, CHR 0x81, CHR 0xD0, CHR 0xB0] @ ''. '' @
     [CHR 0xD0, CHR 0x9F, CHR 0xD0, CHR 0xBE, CHR 0xD0, CHR 0xBF, CHR 0xD1, CHR 0x80, CHR 0xD0,
     CHR 0xBE, CHR 0xD0, CHR 0xB1, CHR 0xD1, CHR 0x83, CHR 0xD0, CHR 0xB9, CHR 0xD1, CHR 0x82,
     CHR 0xD0, CHR 0xB5] @ '' '' @ [CHR 0xD0, CHR 0xBF, CHR 0xD0, CHR 0xBE, CHR 0xD0, CHR 0xB7,
     CHR 0xD0, CHR 0xB6, CHR 0xD0, CHR 0xB5] @ ''.''"

definition msgRenderQuestionFailed :: string where
  \<comment> \<open>"Could not prepare the question. Try again later."\<close>
  "msgRenderQuestionFailed =
     [CHR 0xD0, CHR 0x9D, CHR 0xD0, CHR 0xB5] @ '' '' @ [CHR 0xD1, CHR 0x83, CHR 0xD0, CHR 0xB4,
     CHR 0xD0, CHR 0xB0, CHR 0xD0, CHR 0xBB, CHR 0xD0, CHR 0xBE, CHR 0xD1, CHR 0x81, CHR 0xD1,
     CHR 0x8C] @ '' '' @ [CHR 0xD0, CHR 0xBF, CHR 0xD0, CHR 0xBE, CHR 0xD0, CHR 0xB4, CHR 0xD0,
     CHR 0xB3, CHR 0xD0, CHR 0xBE, CHR 0xD1, CHR 0x82, CHR 0xD0, CHR 0xBE, CHR 0xD0, CHR 0xB2,
     CHR 0xD0, CHR 0xB8, CHR 0xD1, CHR 0x82, CHR 0xD1, CHR 0x8C] @ '' '' @ [CHR 0xD0, CHR 0xB2,
     CHR 0xD0, CHR 0xBE, CHR 0xD0, CHR 0xBF, CHR 0xD1, CHR 0x80, CHR 0xD0, CHR 0xBE, CHR 0xD1,
     CHR 0x81] @ ''. '' @ [CHR 0xD0, CHR 0x9F, CHR 0xD0, CHR 0xBE, CHR 0xD0, CHR 0xBF, CHR 0xD1,
     CHR 0x80, CHR 0xD0, CHR 0xBE, CHR 0xD0, CHR 0xB1, CHR 0xD1, CHR 0x83, CHR 0xD0, CHR 0xB9,
     CHR 0xD1, CHR 0x82, CHR 0xD0, CHR 0xB5] @ '' '' @ [CHR 0xD0, CHR 0xBF, CHR 0xD0, CHR 0xBE,
     CHR 0xD0, CHR 0xB7, CHR 0xD0, CHR 0xB6, CHR 0xD0, CHR 0xB5] @ ''.''"

definition btnCancelSection :: string where
  \<comment> \<open>"(left arrow) Back to the choice of sections"\<close>
  "btnCancelSection =
     [CHR 0xE2, CHR 0xAC, CHR 0x85, CHR 0xEF, CHR 0xB8, CHR 0x8F] @ '' '' @ [CHR 0xD0, CHR 0x9D,
     CHR 0xD0, CHR 0xB0, CHR 0xD0, CHR 0xB7, CHR 0xD0, CHR 0xB0, CHR 0xD0, CHR 0xB4] @ '' '' @
     [CHR 0xD0, CHR 0xBA] @ '' '' @ [CHR 0xD0, CHR 0xB2, CHR 0xD1, CHR 0x8B, CHR 0xD0, CHR 0xB1,
     CHR 0xD0, CHR 0xBE, CHR 0xD1, CHR 0x80, CHR 0xD1, CHR 0x83] @ '' '' @ [CHR 0xD1, CHR 0x81,
     CHR 0xD0, CHR 0xB5, CHR 0xD0, CHR 0xBA, CHR 0xD1, CHR 0x86, CHR 0xD0, CHR 0xB8, CHR 0xD0,
     CHR 0xB9]"

definition msgRecordSaved :: string where
  \<comment> \<open>"(check mark) Record saved successfully!"\<close>
  "msgRecordSaved =
     [CHR 0xE2, CHR 0x9C, CHR 0x85] @ '' '' @ [CHR 0xD0, CHR 0x97, CHR 0xD0, CHR 0xB0, CHR 0xD0,
     CHR 0xBF, CHR 0xD0, CHR 0xB8, CHR 0xD1, CHR 0x81, CHR 0xD1, CHR 0x8C] @ '' '' @ [CHR 0xD1,
     CHR 0x83, CHR 0xD1, CHR 0x81, CHR 0xD0, CHR 0xBF, CHR 0xD0, CHR 0xB5, CHR 0xD1, CHR 0x88,
     CHR 0xD0, CHR 0xBD, CHR 0xD0, CHR 0xBE] @ '' '' @ [CHR 0xD1, CHR 0x81, CHR 0xD0, CHR 0xBE,
     CHR 0xD1, CHR 0x85, CHR 0xD1, CHR 0x80, CHR 0xD0, CHR 0xB0, CHR 0xD0, CHR 0xBD, CHR 0xD0,
     CHR 0xB5, CHR 0xD0, CHR 0xBD, CHR 0xD0, CHR 0xB0] @ ''!''"

definition msgNoDraftToSave :: string where
  \<comment> \<open>"(warning) Error: no draft found to save."\<close>
  "msgNoDraftToSave =
     [CHR 0xE2, CHR 0x9A, CHR 0xA0, CHR 0xEF, CHR 0xB8, CHR 0x8F] @ '' '' @ [CHR 0xD0, CHR 0x9E,
     CHR 0xD1, CHR 0x88, CHR 0xD0, CHR 0xB8, CHR 0xD0, CHR 0xB1, CHR 0xD0, CHR 0xBA, CHR 0xD0,
     CHR 0xB0] @ '': '' @ [CHR 0xD0, CHR 0x9D, CHR 0xD0, CHR 0xB5] @ '' '' @ [CHR 0xD0, CHR 0xBD,
     CHR 0xD0, CHR 0xB0, CHR 0xD0, CHR 0xB9, CHR 0xD0, CHR 0xB4, CHR 0xD0, CHR 0xB5, CHR 0xD0,
     CHR 0xBD] @ '' '' @ [CHR 0xD1, CHR 0x87, CHR 0xD0, CHR 0xB5, CHR 0xD1, CHR 0x80, CHR 0xD0,
     CHR 0xBD, CHR 0xD0, CHR 0xBE, CHR 0xD0, CHR 0xB2, CHR 0xD0, CHR 0xB8, CHR 0xD0, CHR 0xBA] @
     '' '' @ [CHR 0xD0, CHR 0xB4, CHR 0xD0, CHR 0xBB, CHR 0xD1, CHR 0x8F] @ '' '' @ [CHR 0xD1,
     CHR 0x81, CHR 0xD0, CHR 0xBE, CHR 0xD1, CHR 0x85, CHR 0xD1, CHR 0x80, CHR 0xD0, CHR 0xB0,
     CHR 0xD0, CHR 0xBD, CHR 0xD0, CHR 0xB5, CHR 0xD0, CHR 0xBD, CHR 0xD0, CHR 0xB8, CHR 0xD1,
     CHR 0x8F] @ ''.''"

definition msgExitKeepDraft :: string where
  \<comment> \<open>"Leaving input mode. The draft can be continued."\<close>
  "msgExitKeepDraft =
     [CHR 0xD0, CHR 0x92, CHR 0xD1, CHR 0x8B, CHR 0xD1, CHR 0x85, CHR 0xD0, CHR 0xBE, CHR 0xD0,
     CHR 0xB4] @ '' '' @ [CHR 0xD0, CHR 0xB8, CHR 0xD0, CHR 0xB7] @ '' '' @ [CHR 0xD1, CHR 0x80,
     CHR 0xD0, CHR 0xB5, CHR 0xD0, CHR 0xB6, CHR 0xD0, CHR 0xB8, CHR 0xD0, CHR 0xBC, CHR 0xD0,
     CHR 0xB0] @ '' '' @ [CHR 0xD0, CHR 0xB4, CHR 0xD0, CHR 0xBE, CHR 0xD0, CHR 0xB1, CHR 0xD0,
     CHR 0xB0, CHR 0xD0, CHR 0xB2, CHR 0xD0, CHR 0xBB, CHR 0xD0, CHR 0xB5, CHR 0xD0, CHR 0xBD,
     CHR 0xD0, CHR 0xB8, CHR 0xD1, CHR 0x8F] @ ''. '' @ [CHR 0xD0, CHR 0xA7, CHR 0xD0, CHR 0xB5,
     CHR 0xD1, CHR 0x80, CHR 0xD0, CHR 0xBD, CHR 0xD0, CHR 0xBE, CHR 0xD0, CHR 0xB2, CHR 0xD0,
     CHR 0xB8, CHR 0xD0, CHR 0xBA] @ '' '' @ [CHR 0xD0, CHR 0xB4, CHR 0xD0, CHR 0xBE, CHR 0xD1,
     CHR 0x81, CHR 0xD1, CHR 0x82, CHR 0xD1, CHR 0x83, CHR 0xD0, CHR 0xBF, CHR 0xD0, CHR 0xB5,
     CHR 0xD0, CHR 0xBD] @ '' '' @ [CHR 0xD0, CHR 0xB4, CHR 0xD0, CHR 0xBB, CHR 0xD1, CHR 0x8F] @
     '' '' @ [CHR 0xD0, CHR 0xBF, CHR 0xD1, CHR 0x80, CHR 0xD0, CHR 0xBE, CHR 0xD0, CHR 0xB4,
     CHR 0xD0, CHR 0xBE, CHR 0xD0, CHR 0xBB, CHR 0xD0, CHR 0xB6, CHR 0xD0, CHR 0xB5, CHR 0xD0,
     CHR 0xBD, CHR 0xD0, CHR 0xB8, CHR 0xD1, CHR 0x8F] @ ''.''"

definition msgForceExitPrefix :: string where
  \<comment> \<open>"(warning) An error occurred ("\<close>
  "msgForceExitPrefix =
     [CHR 0xE2, CHR 0x9A, CHR 0xA0, CHR 0xEF, CHR 0xB8, CHR 0x8F] @ '' '' @ [CHR 0xD0, CHR 0x9F,
     CHR 0xD1, CHR 0x80, CHR 0xD0, CHR 0xBE, CHR 0xD0, CHR 0xB8, CHR 0xD0, CHR 0xB7, CHR 0xD0,
     CHR 0xBE, CHR 0xD1, CHR 0x88, CHR 0xD0, CHR 0xBB, CHR 0xD0, CHR 0xB0] @ '' '' @ [CHR 0xD0,
     CHR 0xBE, CHR 0xD1, CHR 0x88, CHR 0xD0, CHR 0xB8, CHR 0xD0, CHR 0xB1, CHR 0xD0, CHR 0xBA,
     CHR 0xD0, CHR 0xB0] @ '' (''"

definition msgForceExitSuffix :: string where
  \<comment> \<open>"). Input interrupted. Draft saved."\<close>
  "msgForceExitSuffix =
     ''). '' @ [CHR 0xD0, CHR 0x92, CHR 0xD0, CHR 0xB2, CHR 0xD0, CHR 0xBE, CHR 0xD0, CHR 0xB4] @
     '' '' @ [CHR 0xD0, CHR 0xBF, CHR 0xD1, CHR 0x80, CHR 0xD0, CHR 0xB5, CHR 0xD1, CHR 0x80,
     CHR 0xD0, CHR 0xB2, CHR 0xD0, CHR 0xB0, CHR 0xD0, CHR 0xBD] @ ''. '' @ [CHR 0xD0, CHR 0xA7,
     CHR 0xD0, CHR 0xB5, CHR 0xD1, CHR 0x80, CHR 0xD0, CHR 0xBD, CHR 0xD0, CHR 0xBE, CHR 0xD0,
     CHR 0xB2, CHR 0xD0, CHR 0xB8, CHR 0xD0, CHR 0xBA] @ '' '' @ [CHR 0xD1, CHR 0x81, CHR 0xD0,
     CHR 0xBE, CHR 0xD1, CHR 0x85, CHR 0xD1, CHR 0x80, CHR 0xD0, CHR 0xB0, CHR 0xD0, CHR 0xBD,
     CHR 0xD0, CHR 0xB5, CHR 0xD0, CHR 0xBD] @ ''.''"

definition msgOperationDone :: string where
  \<comment> \<open>"Operation finished."\<close>
  "msgOperationDone =
     [CHR 0xD0, CHR 0x9E, CHR 0xD0, CHR 0xBF, CHR 0xD0, CHR 0xB5, CHR 0xD1, CHR 0x80, CHR 0xD0,
     CHR 0xB0, CHR 0xD1, CHR 0x86, CHR 0xD0, CHR 0xB8, CHR 0xD1, CHR 0x8F] @ '' '' @ [CHR 0xD0,
     CHR 0xB7, CHR 0xD0, CHR 0xB0, CHR 0xD0, CHR 0xB2, CHR 0xD0, CHR 0xB5, CHR 0xD1, CHR 0x80,
     CHR 0xD1, CHR 0x88, CHR 0xD0, CHR 0xB5, CHR 0xD0, CHR 0xBD, CHR 0xD0, CHR 0xB0] @ ''.''"

definition msgStaleAnswer :: string where
  \<comment> \<open>"(warning) An answer to the previous question?"\<close>
  "msgStaleAnswer =
     [CHR 0xE2, CHR 0x9A, CHR 0xA0, CHR 0xEF, CHR 0xB8, CHR 0x8F] @ '' '' @ [CHR 0xD0, CHR 0x9E,
     CHR 0xD1, CHR 0x82, CHR 0xD0, CHR 0xB2, CHR 0xD0, CHR 0xB5, CHR 0xD1, CHR 0x82] @ '' '' @
     [CHR 0xD0, CHR 0xBD, CHR 0xD0, CHR 0xB0] @ '' '' @ [CHR 0xD0, CHR 0xBF, CHR 0xD1, CHR 0x80,
     CHR 0xD0, CHR 0xB5, CHR 0xD0, CHR 0xB4, CHR 0xD1, CHR 0x8B, CHR 0xD0, CHR 0xB4, CHR 0xD1,
     CHR 0x83, CHR 0xD1, CHR 0x89, CHR 0xD0, CHR 0xB8, CHR 0xD0, CHR 0xB9] @ '' '' @ [CHR 0xD0,
     CHR 0xB2, CHR 0xD0, CHR 0xBE, CHR 0xD0, CHR 0xBF, CHR 0xD1, CHR 0x80, CHR 0xD0, CHR 0xBE,
     CHR 0xD1, CHR 0x81] @ ''?''"

definition msgActionUnavailable :: string where
  \<comment> \<open>"Action unavailable."\<close>
  "msgActionUnavailable =
     [CHR 0xD0, CHR 0x94, CHR 0xD0, CHR 0xB5, CHR 0xD0, CHR 0xB9, CHR 0xD1, CHR 0x81, CHR 0xD1,
     CHR 0x82, CHR 0xD0, CHR 0xB2, CHR 0xD0, CHR 0xB8, CHR 0xD0, CHR 0xB5] @ '' '' @ [CHR 0xD0,
     CHR 0xBD, CHR 0xD0, CHR 0xB5, CHR 0xD0, CHR 0xB4, CHR 0xD0, CHR 0xBE, CHR 0xD1, CHR 0x81,
     CHR 0xD1, CHR 0x82, CHR 0xD1, CHR 0x83, CHR 0xD0, CHR 0xBF, CHR 0xD0, CHR 0xBD, CHR 0xD0,
     CHR 0xBE] @ ''.''"

definition msgInternalFSMError :: string where
  \<comment> \<open>"An internal FSM error occurred."\<close>
  "msgInternalFSMError =
     [CHR 0xD0, CHR 0x9F, CHR 0xD1, CHR 0x80, CHR 0xD0, CHR 0xBE, CHR 0xD0, CHR 0xB8, CHR 0xD0,
     CHR 0xB7, CHR 0xD0, CHR 0xBE, CHR 0xD1, CHR 0x88, CHR 0xD0, CHR 0xBB, CHR 0xD0, CHR 0xB0] @
     '' '' @ [CHR 0xD0, CHR 0xB2, CHR 0xD0, CHR 0xBD, CHR 0xD1, CHR 0x83, CHR 0xD1, CHR 0x82,
     CHR 0xD1, CHR 0x80, CHR 0xD0, CHR 0xB5, CHR 0xD0, CHR 0xBD, CHR 0xD0, CHR 0xBD, CHR 0xD1,
     CHR 0x8F, CHR 0xD1, CHR 0x8F] @ '' '' @ [CHR 0xD0, CHR 0xBE, CHR 0xD1, CHR 0x88, CHR 0xD0,
     CHR 0xB8, CHR 0xD0, CHR 0xB1, CHR 0xD0, CHR 0xBA, CHR 0xD0, CHR 0xB0] @ '' FSM.''"

definition msgNoSavedToShare :: string where
  \<comment> \<open>"No saved records to forward."\<close>
  "msgNoSavedToShare =
     [CHR 0xD0, CHR 0x9D, CHR 0xD0, CHR 0xB5, CHR 0xD1, CHR 0x82] @ '' '' @ [CHR 0xD1, CHR 0x81,
     CHR 0xD0, CHR 0xBE, CHR 0xD1, CHR 0x85, CHR 0xD1, CHR 0x80, CHR 0xD0, CHR 0xB0, CHR 0xD0,
     CHR 0xBD, CHR 0xD0, CHR 0xB5, CHR 0xD0, CHR 0xBD, CHR 0xD0, CHR 0xBD, CHR 0xD1, CHR 0x8B,
     CHR 0xD1, CHR 0x85] @ '' '' @ [CHR 0xD0, CHR 0xB7, CHR 0xD0, CHR 0xB0, CHR 0xD0, CHR 0xBF,
     CHR 0xD0, CHR 0xB8, CHR 0xD1, CHR 0x81, CHR 0xD0, CHR 0xB5, CHR 0xD0, CHR 0xB9] @ '' '' @
     [CHR 0xD0, CHR 0xB4, CHR 0xD0, CHR 0xBB, CHR 0xD1, CHR 0x8F] @ '' '' @ [CHR 0xD0, CHR 0xBF,
     CHR 0xD0, CHR 0xB5, CHR 0xD1, CHR 0x80, CHR 0xD0, CHR 0xB5, CHR 0xD1, CHR 0x81, CHR 0xD1,
     CHR 0x8B, CHR 0xD0, CHR 0xBB, CHR 0xD0, CHR 0xBA, CHR 0xD0, CHR 0xB8] @ ''.''"

definition msgSharePrepareFailed :: string where
  \<comment> \<open>"Could not prepare the record for sending."\<close>
  "msgSharePrepareFailed =
     [CHR 0xD0, CHR 0x9D, CHR 0xD0, CHR 0xB5] @ '' '' @ [CHR 0xD1, CHR 0x83, CHR 0xD0, CHR 0xB4,
     CHR 0xD0, CHR 0xB0, CHR 0xD0, CHR 0xBB, CHR 0xD0, CHR 0xBE, CHR 0xD1, CHR 0x81, CHR 0xD1,
     CHR 0x8C] @ '' '' @ [CHR 0xD0, CHR 0xBF, CHR 0xD0, CHR 0xBE, CHR 0xD0, CHR 0xB4, CHR 0xD0,
     CHR 0xB3, CHR 0xD0, CHR 0xBE, CHR 0xD1, CHR 0x82, CHR 0xD0, CHR 0xBE, CHR 0xD0, CHR 0xB2,
     CHR 0xD0, CHR 0xB8, CHR 0xD1, CHR 0x82, CHR 0xD1, CHR 0x8C] @ '' '' @ [CHR 0xD0, CHR 0xB7,
     CHR 0xD0, CHR 0xB0, CHR 0xD0, CHR 0xBF, CHR 0xD0, CHR 0xB8, CHR 0xD1, CHR 0x81, CHR 0xD1,
     CHR 0x8C] @ '' '' @ [CHR 0xD0, CHR 0xB4, CHR 0xD0, CHR 0xBB, CHR 0xD1, CHR 0x8F] @ '' '' @
     [CHR 0xD0, CHR 0xBE, CHR 0xD1, CHR 0x82, CHR 0xD0, CHR 0xBF, CHR 0xD1, CHR 0x80, CHR 0xD0,
     CHR 0xB0, CHR 0xD0, CHR 0xB2, CHR 0xD0, CHR 0xBA, CHR 0xD0, CHR 0xB8] @ ''.''"

definition msgShareIntro :: string where
  \<comment> \<open>"To share, copy the text below:"\<close>
  "msgShareIntro =
     [CHR 0xD0, CHR 0xA7, CHR 0xD1, CHR 0x82, CHR 0xD0, CHR 0xBE, CHR 0xD0, CHR 0xB1, CHR 0xD1,
     CHR 0x8B] @ '' '' @ [CHR 0xD0, CHR 0xBF, CHR 0xD0, CHR 0xBE, CHR 0xD0, CHR 0xB4, CHR 0xD0,
     CHR 0xB5, CHR 0xD0, CHR 0xBB, CHR 0xD0, CHR 0xB8, CHR 0xD1, CHR 0x82, CHR 0xD1, CHR 0x8C,
     CHR 0xD1, CHR 0x81, CHR 0xD1, CHR 0x8F] @ '', '' @ [CHR 0xD1, CHR 0x81, CHR 0xD0, CHR 0xBA,
     CHR 0xD0, CHR 0xBE, CHR 0xD0, CHR 0xBF, CHR 0xD0, CHR 0xB8, CHR 0xD1, CHR 0x80, CHR 0xD1,
     CHR 0x83, CHR 0xD0, CHR 0xB9, CHR 0xD1, CHR 0x82, CHR 0xD0, CHR 0xB5] @ '' '' @ [CHR 0xD1,
     CHR 0x82, CHR 0xD0, CHR 0xB5, CHR 0xD0, CHR 0xBA, CHR 0xD1, CHR 0x81, CHR 0xD1, CHR 0x82] @
     '' '' @ [CHR 0xD0, CHR 0xBD, CHR 0xD0, CHR 0xB8, CHR 0xD0, CHR 0xB6, CHR 0xD0, CHR 0xB5] @
     '':''"

definition CallbackActionPrefix :: string where "CallbackActionPrefix = ''action:''"
definition CallbackSectionPrefix :: string where "CallbackSectionPrefix = ''section:''"
definition CallbackAnswerPrefix :: string where "CallbackAnswerPrefix = ''answer:''"
definition CallbackListNavPrefix :: string where "CallbackListNavPrefix = ''list_nav:''"

definition ActionSaveRecord :: string where "ActionSaveRecord = ''save_record''"
definition ActionNewRecord :: string where "ActionNewRecord = ''new_record''"
definition ActionExitMenu :: string where "ActionExitMenu = ''exit_menu''"
definition ActionCancelSection :: string where "ActionCancelSection = ''cancel_section''"
definition ActionShareLast :: string where "ActionShareLast = ''share_last''"

definition notModifiedText :: string where
  "notModifiedText = ''message is not modified''"

definition sendMainMenu :: "world \<Rightarrow> world" where
  "sendMainMenu w =
     (case w of (us, p) \<Rightarrow>
        (let recordCount = int (length (Records us));
             stats = statsNameLabel @ UserName us @ [CHR 0x0A]
                     @ statsIDLabel @ fmtInt (UserID us) @ [CHR 0x0A]
                     @ statsCountLabel @ fmtInt recordCount;
             mainMenuKeyboard = ReplyKeyboard
               [[ButtonMainMenuShowRecord, ButtonMainMenuFillRecord],
                [ButtonMainMenuSendSelf, ButtonMainMenuSendTherapist]]
         in (us, snd (SendMessage p (UserID us)
                        (stats @ [CHR 0x0A, CHR 0x0A] @ msgChooseAction) mainMenuKeyboard))))"

text \<open>Machine integers: a Go \<^verbatim>\<open>int\<close> is 64 bits wide on the platform the bot is built for
  (amd64), and its arithmetic wraps around.\<close>

definition wrap64 :: "int \<Rightarrow> int" where
  "wrap64 x = (x + 2 ^ 63) mod 2 ^ 64 - 2 ^ 63"

definition isInt64 :: "int \<Rightarrow> bool" where
  "isInt64 x \<longleftrightarrow> - (2 ^ 63) \<le> x \<and> x < 2 ^ 63"

definition truncateString :: "env \<Rightarrow> string \<Rightarrow> nat \<Rightarrow> string" where
  "truncateString ev s n =
     (if length s \<le> n then s
      else (let runes = runesOf ev s
            in if length runes \<le> n then s
               else stringOfRunes ev (take n runes) @ ''...''))"

definition getLastNChars :: "string \<Rightarrow> nat \<Rightarrow> string" where
  "getLastNChars s n = (if length s \<le> n then s else drop (length s - n) s)"

definition listNavigationKeyboard :: "bool \<Rightarrow> bool \<Rightarrow> button list list" where
  "listNavigationKeyboard hasPrev hasNext =
     (let row = (if hasPrev then [ButtonData btnListBack (CallbackListNavPrefix @ ''back'')] else [])
                @ (if hasNext then [ButtonData btnListNext (CallbackListNavPrefix @ ''next'')]
                   else []);
          backRow = [ButtonData btnListToMenu (CallbackListNavPrefix @ ''tomenu'')]
      in if length row > 0 then [row, backRow] else [backRow])"

text \<open>The first loop of \<^verbatim>\<open>viewListHandler\<close>: the saved records, oldest first. Reading
  \<^verbatim>\<open>r.IsSaved\<close> through a nil entry panics.\<close>

fun savedRecordsOf :: "(ref \<Rightarrow> Record) \<Rightarrow> ref option list \<Rightarrow> gopanic + ref list" where
  "savedRecordsOf h [] = Inr []"
| "savedRecordsOf h (None # rs) = Inl (Panic ''nil pointer dereference'')"
| "savedRecordsOf h (Some r # rs) =
     (case savedRecordsOf h rs of
        Inl pn \<Rightarrow> Inl pn
      | Inr saved \<Rightarrow> Inr (if IsSaved (h r) then r # saved else saved))"

text \<open>The bounds \<^verbatim>\<open>start\<close> and \<^verbatim>\<open>end\<close> that \<^verbatim>\<open>viewListHandler\<close> derives from the offset and the
  number of saved records (which is positive where this is computed).\<close>

definition listWindow :: "int \<Rightarrow> int \<Rightarrow> int \<times> int" where
  "listWindow offset totalRecords =
     (let pageSize = 5;
          start0 = offset;
          end0 = wrap64 (offset + pageSize);
          start1 = (if start0 < 0 then 0 else start0);
          start2 = (if start1 \<ge> totalRecords
                    then (let s = (totalRecords div pageSize) * pageSize
                          in if s = totalRecords
                             then (let s' = totalRecords - pageSize in if s' < 0 then 0 else s')
                             else s)
                    else start1);
          end1 = (if end0 > totalRecords then totalRecords else end0)
      in (start2, end1))"

definition listItemText :: "env \<Rightarrow> Record \<Rightarrow> string" where
  "listItemText ev r =
     listItemPrefix @ getLastNChars (ID r) 6 @ '' ('' @ formatTime ev ''02.01.06 15:04'' (CreatedAt r)
       @ '')'' @ [CHR 0x0A]
     @ (case dataAt r ''name'' of
          Some name \<Rightarrow> if name \<noteq> [] then listNameLabel @ truncateString ev name 25 @ [CHR 0x0A]
                       else []
        | None \<Rightarrow> [])
     @ (case dataAt r ''city'' of
          Some city \<Rightarrow> if city \<noteq> [] then listCityLabel @ truncateString ev city 25 @ [CHR 0x0A]
                       else []
        | None \<Rightarrow> [])
     @ ''---'' @ [CHR 0x0A]"

definition viewListHandler :: "env \<Rightarrow> int \<Rightarrow> int \<Rightarrow> world \<Rightarrow> gopanic + world" where
  "viewListHandler ev chatID messageID w =
     (case w of (us, p) \<Rightarrow>
      (case savedRecordsOf (heap us) (Records us) of
         Inl pn \<Rightarrow> Inl pn
       | Inr savedRecords \<Rightarrow>
           (let offset = ListOffset us;
                totalRecords = int (length savedRecords)
            in if totalRecords = 0
               then
                 (let p1 = (if messageID \<noteq> 0
                            then snd (EditMessage p chatID messageID msgNoSavedRecords
                                        (InlineKeyboard []))
                            else snd (SendMessage p chatID msgNoSavedRecords NilMarkup));
                      us1 = (if MainMenuFSM us = StateViewingList
                             then snd (MainMenuFSM_Event EventBackToIdle us) else us)
                  in Inr (us1, p1))
               else
                 (case listWindow offset totalRecords of (start, end) \<Rightarrow>
                   (let revStart0 = totalRecords - end;
                        revEnd = totalRecords - start;
                        revStart = (if revStart0 < 0 then 0 else revStart0)
                    in if start < end \<and> \<not> (revStart \<le> revEnd \<and> revEnd \<le> totalRecords)
                       then Inl (Panic ''slice bounds out of range'')
                       else
                         (let pageRecords = (if start < end
                                             then take (nat (revEnd - revStart))
                                                    (drop (nat revStart) savedRecords)
                                             else []);
                              header = listHeaderPrefix @ fmtInt (start + 1) @ '' - '' @ fmtInt end
                                       @ listHeaderOf @ fmtInt totalRecords @ ''):''
                                       @ [CHR 0x0A, CHR 0x0A];
                              body = (if length pageRecords = 0 \<and> totalRecords > 0
                                      then msgNoRecordsOnPage
                                      else concat (map (\<lambda>r. listItemText ev (heap us r))
                                                     (rev pageRecords)));
                              hasPrev = (start > 0);
                              hasNext = (end < totalRecords);
                              keyboard = listNavigationKeyboard hasPrev hasNext;
                              text = header @ body
                          in if messageID \<noteq> 0
                             then Inr (us, snd (EditMessage p chatID messageID text
                                                  (InlineKeyboard keyboard)))
                             else Inr (us, snd (SendMessage p chatID text
                                                  (InlineKeyboard keyboard)))))))))"

section \<open>Record machine callbacks\<close>

text \<open>
  The callbacks read their arguments from \<^verbatim>\<open>e.Args\<close> and check their number and types at
  run time. Every \<^verbatim>\<open>Event\<close> call on the record machine in the repository passes the user
  state, the port, the schema, the chat identifier (an \<^verbatim>\<open>int64\<close>) and the message identifier
  (an \<^verbatim>\<open>int\<close>), and \<^verbatim>\<open>force_exit\<close> also a reason, so those checks pass and the model takes
  the arguments typed; a call without a reason reads the empty string. The port and the
  schema are never nil.
\<close>

definition toBotMessageFromPort :: "int \<Rightarrow> int \<Rightarrow> string \<Rightarrow> BotMessage" where
  \<comment> \<open>the markup passed is always a \<^verbatim>\<open>*tgbotapi.InlineKeyboardMarkup\<close>, which is what
      \<^verbatim>\<open>%T\<close> prints\<close>
  "toBotMessageFromPort chatID messageID text =
     \<lparr>ChatID = chatID, MessageID = messageID, Transport = ''telegram'', Payload = text,
      Meta = Some [''markup_type'' \<mapsto> ''*tgbotapi.InlineKeyboardMarkup'']\<rparr>"

definition sectionHasData :: "SectionConfig \<Rightarrow> (string \<rightharpoonup> string) option \<Rightarrow> bool" where
  "sectionHasData sectionConf recordData =
     (case recordData of
        None \<Rightarrow> False
      | Some d \<Rightarrow> list_ex (\<lambda>q. case d (StoreKey q) of None \<Rightarrow> False | Some v \<Rightarrow> v \<noteq> [])
                  (Questions sectionConf))"

text \<open>\<^verbatim>\<open>getSortedSectionIDs\<close> appends each key as the \<^verbatim>\<open>range\<close> over the map yields it and
  returns the slice; it does not sort it.\<close>

definition getSortedSectionIDs :: "env \<Rightarrow> RecordConfig \<Rightarrow> string list" where
  "getSortedSectionIDs ev rc = foldl (\<lambda>keys k. keys @ [k]) [] (rangeOrder ev)"

definition sectionButtonRows ::
  "env \<Rightarrow> RecordConfig \<Rightarrow> (string \<rightharpoonup> string) option \<Rightarrow> button list list" where
  "sectionButtonRows ev rc recordData =
     map (\<lambda>sectionID.
            (let sectionConf = sectionAt rc sectionID;
                 hasData = sectionHasData sectionConf recordData;
                 buttonText = (if hasData then Title sectionConf @ checkMarkSuffix
                               else Title sectionConf)
             in [ButtonData buttonText (CallbackSectionPrefix @ sectionID)]))
         (getSortedSectionIDs ev rc)"

definition sectionKeyboard ::
  "env \<Rightarrow> RecordConfig \<Rightarrow> (string \<rightharpoonup> string) option \<Rightarrow> button list list" where
  "sectionKeyboard ev rc recordData =
     sectionButtonRows ev rc recordData
     @ [[ButtonData btnSaveRecord (CallbackActionPrefix @ ActionSaveRecord),
         ButtonData btnExitMenu (CallbackActionPrefix @ ActionExitMenu)]]"

definition enterRecordIdle ::
  "env \<Rightarrow> record_event \<Rightarrow> int \<Rightarrow> int \<Rightarrow> string \<Rightarrow> world \<Rightarrow> world" where
  "enterRecordIdle ev event chatID messageID failureReason w =
     (case w of (us, p) \<Rightarrow>
      (let recordToFinalize = CurrentRecord us;
           created = now ev;
           us1 = (case (event, recordToFinalize) of
                    (EventSaveFullRecord, Some r) \<Rightarrow>
                      us\<lparr>heap := (heap us)(r := (heap us r)
                             \<lparr>ID := fmtInt (UserID us) @ ''-'' @ fmtInt created,
                              IsSaved := True, CreatedAt := created\<rparr>)\<rparr>
                  | _ \<Rightarrow> us);
           finalText = (case event of
                          EventSaveFullRecord \<Rightarrow>
                            (if recordToFinalize \<noteq> None then msgRecordSaved else msgNoDraftToSave)
                        | EventExitToMainMenu \<Rightarrow> msgExitKeepDraft
                        | EventForceExit \<Rightarrow> msgForceExitPrefix @ failureReason @ msgForceExitSuffix
                        | _ \<Rightarrow> msgOperationDone);
           clearDraft = (case event of
                           EventSaveFullRecord \<Rightarrow> True
                         | EventExitToMainMenu \<Rightarrow> False
                         | EventForceExit \<Rightarrow> False
                         | _ \<Rightarrow> True);
           saveRecord = (event = EventSaveFullRecord \<and> recordToFinalize \<noteq> None);
           us2 = (if saveRecord \<and> recordToFinalize \<noteq> None
                  then us1\<lparr>Records := Records us1 @ [recordToFinalize]\<rparr> else us1);
           us3 = us2\<lparr>CurrentSection := [], CurrentQuestion := 0, LastMessageID := 0\<rparr>;
           us4 = (if clearDraft then us3\<lparr>CurrentRecord := None\<rparr> else us3);
           p1 = (if messageID \<noteq> 0
                 then (case EditMessage p chatID messageID finalText (InlineKeyboard []) of
                         (Inl err, p') \<Rightarrow>
                           if \<not> strContains (errorText err) notModifiedText
                           then snd (SendMessage p' chatID finalText NilMarkup)
                           else p'
                       | (Inr m, p') \<Rightarrow> p')
                 else snd (SendMessage p chatID finalText NilMarkup))
       in sendMainMenu (us4, p1)))"

text \<open>\<^verbatim>\<open>RecordFSM.Event(ctx, EventForceExit, ...)\<close>: the event's only destination is
  \<^verbatim>\<open>record_idle\<close>, whose callback is \<^verbatim>\<open>enterRecordIdle\<close>.\<close>

definition forceExit ::
  "env \<Rightarrow> int \<Rightarrow> int \<Rightarrow> string \<Rightarrow> world \<Rightarrow> fsm_error option \<times> world" where
  "forceExit ev chatID messageID reason w =
     (case w of (us, p) \<Rightarrow>
      (case recordTransition EventForceExit (RecordFSM us) of
         None \<Rightarrow> (Some InvalidEventError, w)
       | Some dst \<Rightarrow>
           if dst = RecordFSM us then (Some NoTransitionError, w)
           else (None, enterRecordIdle ev EventForceExit chatID messageID reason
                         (us\<lparr>RecordFSM := dst\<rparr>, p))))"

definition logAndForceExit :: "env \<Rightarrow> int \<Rightarrow> int \<Rightarrow> string \<Rightarrow> world \<Rightarrow> world" where
  "logAndForceExit ev chatID messageID errorMsg w = snd (forceExit ev chatID messageID errorMsg w)"

definition enterSelectingSection ::
  "env \<Rightarrow> RecordConfig \<Rightarrow> int \<Rightarrow> int \<Rightarrow> world \<Rightarrow> world" where
  "enterSelectingSection ev rc chatID messageID w =
     (case w of (us, p) \<Rightarrow>
      if Sections rc = None
      then logAndForceExit ev chatID messageID ''RecordConfig.Sections is nil'' w
      else
        (case CurrentRecord us of
           None \<Rightarrow> logAndForceExit ev chatID messageID ''UserState.CurrentRecord is nil'' w
         | Some currentRec \<Rightarrow>
             if Data (heap us currentRec) = None
             then logAndForceExit ev chatID messageID ''UserState.CurrentRecord.Data is nil'' w
             else
               (let recordData = Data (heap us currentRec);
                    prompt = msgSelectSection;
                    keyboard = sectionKeyboard ev rc recordData;
                    sent = (if messageID \<noteq> 0
                            then EditMessage p chatID messageID prompt (InlineKeyboard keyboard)
                            else SendMessage p chatID prompt (InlineKeyboard keyboard))
                in case sent of
                     (Inl err, p1) \<Rightarrow>
                       if \<not> strContains (errorText err) notModifiedText
                       then snd (forceExit ev chatID 0 ''error displaying section menu'' (us, p1))
                       else
                         (us\<lparr>LastMessageID := messageID,
                             LastPrompt := toBotMessageFromPort chatID messageID prompt\<rparr>, p1)
                   | (Inr sentMsg, p1) \<Rightarrow>
                       (us\<lparr>LastMessageID := MessageID sentMsg,
                           LastPrompt := toBotMessageFromPort chatID (MessageID sentMsg) prompt\<rparr>,
                        p1))))"

text \<open>\<^verbatim>\<open>questions.Get\<close>: the registry is keyed by the normalised name.\<close>

definition normalize :: "env \<Rightarrow> string \<Rightarrow> string" where
  "normalize ev name = trimSpace ev (toLower ev name)"

definition Get :: "env \<Rightarrow> string \<Rightarrow> strategy option" where
  "Get ev name = registry ev (normalize ev name)"

definition askCurrentQuestion :: "env \<Rightarrow> RecordConfig \<Rightarrow> int \<Rightarrow> world \<Rightarrow> world" where
  "askCurrentQuestion ev rc messageIDToEdit w =
     (case w of (us, p) \<Rightarrow>
      (let sectionID = CurrentSection us;
           qIndex = CurrentQuestion us;
           lastMsgID = LastMessageID us
       in case sectionsMap rc sectionID of
            None \<Rightarrow> (us, snd (SendMessage p (UserID us) msgSectionConfigError NilMarkup))
          | Some sectionConf \<Rightarrow>
              if qIndex < 0 \<or> qIndex \<ge> int (length (Questions sectionConf))
              then (us, snd (SendMessage p (UserID us) msgQuestionNavError NilMarkup))
              else
                (let question = Questions sectionConf ! nat qIndex
                 in case Get ev (Type question) of
                      None \<Rightarrow> (us, snd (SendMessage p (UserID us) msgUnknownQuestionType NilMarkup))
                    | Some strat \<Rightarrow>
                        (let renderCtx = \<lparr>ctxLastPrompt = LastPrompt us, ctxChatID = UserID us,
                                          ctxMessageID = messageIDToEdit,
                                          ctxRecord = CurrentRecord us, ctxSectionID = sectionID,
                                          ctxSection = sectionConf, ctxQuestion = question,
                                          ctxCallbackPrefix = CallbackAnswerPrefix\<rparr>
                         in case sRender strat renderCtx w of
                              (Inl err, (us1, p1)) \<Rightarrow>
                                (us1, snd (SendMessage p1 (UserID us1) msgRenderQuestionFailed
                                             NilMarkup))
                            | (Inr prompt, (us1, p1)) \<Rightarrow>
                                (let keyboard0 = (case Keyboard prompt of Some k \<Rightarrow> k | None \<Rightarrow> []);
                                     cancelRow = [ButtonData btnCancelSection
                                                    (CallbackActionPrefix @ ActionCancelSection)];
                                     keyboard = keyboard0 @ [cancelRow];
                                     isEdit0 = (messageIDToEdit \<noteq> 0 \<and> \<not> ForceNew prompt);
                                     useLast = (messageIDToEdit = 0 \<and> lastMsgID \<noteq> 0
                                                \<and> \<not> ForceNew prompt);
                                     effectiveMessageID = (if useLast then lastMsgID
                                                           else messageIDToEdit);
                                     isEdit = (if useLast then True else isEdit0);
                                     sent = (if isEdit \<and> effectiveMessageID \<noteq> 0
                                             then EditMessage p1 (UserID us1) effectiveMessageID
                                                    (psText prompt) (InlineKeyboard keyboard)
                                             else SendMessage p1 (UserID us1) (psText prompt)
                                                    (InlineKeyboard keyboard))
                                 in case sent of
                                      (Inl err, p2) \<Rightarrow>
                                        if isEdit \<and> IsCode err ''message_not_modified''
                                        then
                                          (let sentMsg = \<lparr>ChatID = UserID us1,
                                                          MessageID = effectiveMessageID,
                                                          Transport = ''telegram'', Payload = [],
                                                          Meta = None\<rparr>
                                           in (us1\<lparr>LastMessageID := MessageID sentMsg,
                                                   LastPrompt := sentMsg\<rparr>, p2))
                                        else (us1, p2)
                                    | (Inr sentMsg, p2) \<Rightarrow>
                                        (us1\<lparr>LastMessageID := MessageID sentMsg,
                                             LastPrompt := sentMsg\<rparr>, p2))))))"

definition enterAnsweringQuestion :: "env \<Rightarrow> RecordConfig \<Rightarrow> int \<Rightarrow> world \<Rightarrow> world" where
  "enterAnsweringQuestion ev rc messageIDFromEvent w = askCurrentQuestion ev rc messageIDFromEvent w"

text \<open>\<^verbatim>\<open>RecordFSM.Event\<close> with the callbacks \<^verbatim>\<open>NewRecordFSM\<close> registers.\<close>

definition RecordFSM_Event ::
  "env \<Rightarrow> RecordConfig \<Rightarrow> record_event \<Rightarrow> int \<Rightarrow> int \<Rightarrow> string \<Rightarrow> world
     \<Rightarrow> fsm_error option \<times> world" where
  "RecordFSM_Event ev rc event chatID messageID reason w =
     (case w of (us, p) \<Rightarrow>
      (case recordTransition event (RecordFSM us) of
         None \<Rightarrow> (Some InvalidEventError, w)
       | Some dst \<Rightarrow>
           if dst = RecordFSM us then (Some NoTransitionError, w)
           else
             (let w1 = (us\<lparr>RecordFSM := dst\<rparr>, p)
              in (None,
                  (case dst of
                     StateSelectingSection \<Rightarrow> enterSelectingSection ev rc chatID messageID w1
                   | StateAnsweringQuestion \<Rightarrow> enterAnsweringQuestion ev rc messageID w1
                   | StateRecordIdle \<Rightarrow>
                       enterRecordIdle ev event chatID messageID reason w1)))))"

section \<open>Update dispatcher: callbacks\<close>

text \<open>What \<^verbatim>\<open>handleCallbackQuery\<close> reads of a \<^verbatim>\<open>tgbotapi.CallbackQuery\<close>: its identifier, the chat
  and message it came from (\<^verbatim>\<open>query.Message\<close>), that message's text and the payload.\<close>

record CallbackQuery =
  cqID :: string
  cqChatID :: int
  cqMessageID :: int
  cqMessageText :: string
  cqData :: string

definition processAnswer :: "env \<Rightarrow> RecordConfig \<Rightarrow> int \<Rightarrow> world \<Rightarrow> world" where
  "processAnswer ev rc messageID w =
     (case w of (us, p) \<Rightarrow>
      (let sectionID = CurrentSection us;
           qIndex = CurrentQuestion us
       in case sectionsMap rc sectionID of
            None \<Rightarrow>
              snd (RecordFSM_Event ev rc EventForceExit (UserID us) messageID
                     ''invalid state/config in processAnswer'' w)
          | Some sectionConf \<Rightarrow>
              if qIndex < 0 \<or> qIndex \<ge> int (length (Questions sectionConf))
              then snd (RecordFSM_Event ev rc EventForceExit (UserID us) messageID
                          ''invalid state/config in processAnswer'' w)
              else
                (let nextQIndex = qIndex + 1;
                     advance = (nextQIndex < int (length (Questions sectionConf)));
                     us1 = (if advance then us\<lparr>CurrentQuestion := nextQIndex\<rparr>
                            else us\<lparr>CurrentQuestion := 0, CurrentSection := []\<rparr>);
                     nextEvent = (if advance then EventAnswerQuestion else EventSectionComplete)
                 in case RecordFSM_Event ev rc nextEvent (UserID us1) messageID [] (us1, p) of
                      (Some err, (us2, p2)) \<Rightarrow>
                        if isNoTransitionError err
                        then askCurrentQuestion ev rc messageID (us2, p2)
                        else (us2, snd (SendMessage p2 (UserID us2) msgInternalFSMError NilMarkup))
                    | (None, w2) \<Rightarrow> w2)))"

definition buildAnswerContext ::
  "UserState \<Rightarrow> SectionConfig \<Rightarrow> QuestionConfig \<Rightarrow> int \<Rightarrow> int \<Rightarrow> string \<Rightarrow> BotMessage
     \<Rightarrow> AnswerContext" where
  "buildAnswerContext us sectionConf question chatID messageID callbackID lastPrompt =
     \<lparr>ctxLastPrompt = lastPrompt, ctxChatID = chatID, ctxMessageID = messageID,
      ctxRecord = CurrentRecord us, ctxSectionID = CurrentSection us, ctxSection = sectionConf,
      ctxQuestion = question, ctxCallbackPrefix = CallbackAnswerPrefix,
      ctxMessage = lastPrompt, ctxCallbackID = callbackID\<rparr>"

definition handleAnswerResult ::
  "env \<Rightarrow> RecordConfig \<Rightarrow> AnswerResult \<Rightarrow> int \<Rightarrow> world \<Rightarrow> world" where
  "handleAnswerResult ev rc result messageID w =
     (case w of (us, p) \<Rightarrow>
      (let w1 = (if Feedback result \<noteq> []
                 then (us, snd (SendMessage p (UserID us) (Feedback result) NilMarkup))
                 else w)
       in if Repeat result \<and> \<not> Advance result then askCurrentQuestion ev rc messageID w1
          else if Advance result then processAnswer ev rc messageID w1
          else w1))"

text \<open>The loop of \<^verbatim>\<open>handleShareLastRecord\<close>, from the last record down; it reads
  \<^verbatim>\<open>Records[i].IsSaved\<close> without a nil check.\<close>

fun lastSavedStrict :: "(ref \<Rightarrow> Record) \<Rightarrow> ref option list \<Rightarrow> gopanic + ref option" where
  "lastSavedStrict h [] = Inr None"
| "lastSavedStrict h (None # rs) = Inl (Panic ''nil pointer dereference'')"
| "lastSavedStrict h (Some r # rs) = (if IsSaved (h r) then Inr (Some r) else lastSavedStrict h rs)"

definition handleShareLastRecord :: "env \<Rightarrow> RecordConfig \<Rightarrow> int \<Rightarrow> world \<Rightarrow> gopanic + world" where
  "handleShareLastRecord ev rc chatID w =
     (case w of (us, p) \<Rightarrow>
      (case lastSavedStrict (heap us) (rev (Records us)) of
         Inl pn \<Rightarrow> Inl pn
       | Inr None \<Rightarrow> Inr (us, snd (SendMessage p chatID msgNoSavedToShare NilMarkup))
       | Inr (Some lastRecord) \<Rightarrow>
           (case buildForwardPayload ev rc (Some (heap us lastRecord)) us of
              Inl pn \<Rightarrow> Inl pn
            | Inr payload \<Rightarrow>
                (case renderForwardMessage ev payload of
                   Inl err \<Rightarrow> Inr (us, snd (SendMessage p chatID msgSharePrepareFailed NilMarkup))
                 | Inr shareText \<Rightarrow>
                     Inr (us, snd (SendMessage p chatID
                                     (msgShareIntro @ [CHR 0x0A, CHR 0x0A] @ ''---'' @ [CHR 0x0A]
                                      @ shareText @ [CHR 0x0A] @ ''---'')
                                     NilMarkup))))))"

text \<open>\<^verbatim>\<open>state.NewRecord()\<close>: a fresh record with an empty, non-nil data map.\<close>

definition NewRecord :: Record where
  "NewRecord = \<lparr>ID = [], Data = Some Map.empty, IsSaved = False, CreatedAt = zeroTime\<rparr>"

definition resetCurrentRecord :: "env \<Rightarrow> int \<Rightarrow> int \<Rightarrow> world \<Rightarrow> world" where
  "resetCurrentRecord ev chatID messageID w =
     (case w of (us, p) \<Rightarrow>
      (let r = nextRef us;
           us1 = us\<lparr>heap := (heap us)(r := NewRecord), nextRef := Suc r,
                    CurrentRecord := Some r, CurrentSection := [], CurrentQuestion := 0\<rparr>
       in showSectionSelectionMenu ev chatID messageID (us1, p)))"

text \<open>The identifier \<^verbatim>\<open>currentQID\<close> that \<^verbatim>\<open>handleCallbackQuery\<close> computes: that of the question
  at the current position, and the empty string when the position is not one of the
  schema.\<close>

definition currentQuestionID :: "RecordConfig \<Rightarrow> UserState \<Rightarrow> string" where
  "currentQuestionID rc us =
     (let okSec = (sectionsMap rc (CurrentSection us) \<noteq> None);
          currentSectionConf = sectionAt rc (CurrentSection us)
      in if okSec \<and> CurrentQuestion us \<ge> 0
            \<and> CurrentQuestion us < int (length (Questions currentSectionConf))
         then qID (Questions currentSectionConf ! nat (CurrentQuestion us))
         else [])"

text \<open>The branch of \<^verbatim>\<open>handleCallbackQuery\<close> for the prefix \<^verbatim>\<open>answer:\<close>. Indexing
  \<^verbatim>\<open>currentSectionConf.Questions\<close> out of range panics.\<close>

definition handleAnswerCallback ::
  "env \<Rightarrow> RecordConfig \<Rightarrow> CallbackQuery \<Rightarrow> string \<Rightarrow> world \<Rightarrow> gopanic + world" where
  "handleAnswerCallback ev rc query val w =
     (case w of (us, p) \<Rightarrow>
      (let chatID = cqChatID query; messageID = cqMessageID query
       in if RecordFSM us = StateAnsweringQuestion
          then
            (case splitColon val of
               (questionID, None) \<Rightarrow> Inr w
             | (questionID, Some optionValue) \<Rightarrow>
                 (let currentQID = currentQuestionID rc us;
                      currentSectionConf = sectionAt rc (CurrentSection us)
                  in if currentQID = questionID
                     then
                       if \<not> (0 \<le> CurrentQuestion us
                             \<and> CurrentQuestion us < int (length (Questions currentSectionConf)))
                       then Inl (Panic ''index out of range'')
                       else
                         (let question = Questions currentSectionConf ! nat (CurrentQuestion us)
                          in case Get ev (Type question) of
                               None \<Rightarrow>
                                 Inr (snd (RecordFSM_Event ev rc EventForceExit chatID messageID
                                             ''missing question strategy'' w))
                             | Some strat \<Rightarrow>
                                 (let answerCtx = buildAnswerContext us currentSectionConf question
                                                    chatID messageID (cqID query) (LastPrompt us);
                                      input = \<lparr>Source = InputSourceCallback, inText = [],
                                               CallbackData = optionValue,
                                               inMessageID = messageID\<rparr>
                                  in case sHandleAnswer strat answerCtx input w of
                                       (Inl err, w1) \<Rightarrow>
                                         Inr (snd (RecordFSM_Event ev rc EventForceExit chatID
                                                     messageID
                                                     ''strategy failed while handling callback''
                                                     w1))
                                     | (Inr result, w1) \<Rightarrow>
                                         Inr (handleAnswerResult ev rc result messageID w1)))
                     else Inr (us, snd (AnswerCallback p (cqID query) msgStaleAnswer))))
          else Inr w))"

text \<open>The branch for the prefix \<^verbatim>\<open>section:\<close>.\<close>

definition handleSectionCallback ::
  "env \<Rightarrow> RecordConfig \<Rightarrow> CallbackQuery \<Rightarrow> string \<Rightarrow> world \<Rightarrow> world" where
  "handleSectionCallback ev rc query val w =
     (case w of (us, p) \<Rightarrow>
      (let chatID = cqChatID query; messageID = cqMessageID query
       in if RecordFSM us = StateSelectingSection
          then
            (let us1 = us\<lparr>CurrentSection := val, CurrentQuestion := 0\<rparr>
             in case RecordFSM_Event ev rc EventSelectSection chatID messageID [] (us1, p) of
                  (Some err, w1) \<Rightarrow>
                    snd (RecordFSM_Event ev rc EventForceExit chatID messageID
                           ''failed to select section'' w1)
                | (None, w1) \<Rightarrow> w1)
          else w))"

text \<open>The branch for the prefix \<^verbatim>\<open>action:\<close>.\<close>

definition handleActionCallback ::
  "env \<Rightarrow> RecordConfig \<Rightarrow> CallbackQuery \<Rightarrow> string \<Rightarrow> world \<Rightarrow> gopanic + world" where
  "handleActionCallback ev rc query actionName w =
     (case w of (us, p) \<Rightarrow>
      (let chatID = cqChatID query; messageID = cqMessageID query; recordState = RecordFSM us
       in if actionName = ActionCancelSection
          then (if recordState = StateAnsweringQuestion
                then Inr (snd (RecordFSM_Event ev rc EventCancelSection chatID messageID [] w))
                else Inr w)
          else if actionName = ActionSaveRecord
          then (if recordState = StateSelectingSection
                then Inr (snd (RecordFSM_Event ev rc EventSaveFullRecord chatID messageID [] w))
                else Inr w)
          else if actionName = ActionNewRecord
          then (if recordState = StateSelectingSection
                then Inr (resetCurrentRecord ev chatID messageID w)
                else Inr w)
          else if actionName = ActionExitMenu
          then (if recordState = StateSelectingSection
                then Inr (snd (RecordFSM_Event ev rc EventExitToMainMenu chatID messageID [] w))
                else Inr w)
          else if actionName = ActionShareLast
          then handleShareLastRecord ev rc chatID w
          else Inr w))"

text \<open>The branch for the prefix \<^verbatim>\<open>list_nav:\<close>.\<close>

definition handleListNavCallback ::
  "env \<Rightarrow> CallbackQuery \<Rightarrow> string \<Rightarrow> world \<Rightarrow> gopanic + world" where
  "handleListNavCallback ev query navAction w =
     (case w of (us, p) \<Rightarrow>
      (let chatID = cqChatID query; messageID = cqMessageID query
       in if MainMenuFSM us = StateViewingList
          then
            if navAction = ''next''
            then viewListHandler ev chatID messageID
                   (us\<lparr>ListOffset := wrap64 (ListOffset us + 5)\<rparr>, p)
            else if navAction = ''back''
            then
              (let newOffset0 = wrap64 (ListOffset us - 5);
                   newOffset = (if newOffset0 < 0 then 0 else newOffset0)
               in viewListHandler ev chatID messageID (us\<lparr>ListOffset := newOffset\<rparr>, p))
            else if navAction = ''tomenu''
            then
              (let us1 = snd (MainMenuFSM_Event EventBackToIdle us);
                   p1 = snd (EditMessage p chatID messageID (cqMessageText query)
                               (InlineKeyboard []))
               in Inr (sendMainMenu (us1, p1)))
            else Inr w
          else Inr (us, snd (AnswerCallback p (cqID query) msgActionUnavailable))))"

definition handleCallbackQuery ::
  "env \<Rightarrow> RecordConfig \<Rightarrow> CallbackQuery \<Rightarrow> world \<Rightarrow> gopanic + world" where
  "handleCallbackQuery ev rc query w =
     (case w of (us, p) \<Rightarrow>
      (let p0 = snd (AnswerCallback p (cqID query) []);
           parts = splitColon (cqData query);
           prefix = fst parts @ '':'';
           val = (case snd parts of Some v \<Rightarrow> v | None \<Rightarrow> [])
       in if prefix = CallbackAnswerPrefix then handleAnswerCallback ev rc query val (us, p0)
          else if prefix = CallbackSectionPrefix
          then Inr (handleSectionCallback ev rc query val (us, p0))
          else if prefix = CallbackActionPrefix then handleActionCallback ev rc query val (us, p0)
          else if prefix = CallbackListNavPrefix then handleListNavCallback ev query val (us, p0)
          else Inr (us, p0)))"

section \<open>Schema validation (config.go)\<close>

type_synonym QuestionValidator = "string \<Rightarrow> QuestionConfig \<Rightarrow> go_error option"

definition quoted :: "string \<Rightarrow> string" where
  "quoted s = [CHR 0x27] @ s @ [CHR 0x27]"

text \<open>The fallback of \<^verbatim>\<open>validateQuestionWithStrategy\<close> when no validator is registered.\<close>

fun validateOptions :: "string \<Rightarrow> QuestionConfig \<Rightarrow> nat \<Rightarrow> ButtonOption list \<Rightarrow> go_error option" where
  "validateOptions sectionID question j [] = None"
| "validateOptions sectionID question j (option # rest) =
     (if Text option = []
      then Some (PlainErr (''config validation failed: option #'' @ fmtInt (int j + 1)
                           @ '' for question '' @ quoted (qID question) @ '' in section ''
                           @ quoted sectionID @ '' has no text''))
      else if Value option = []
      then Some (PlainErr (''config validation failed: option #'' @ fmtInt (int j + 1)
                           @ '' for question '' @ quoted (qID question) @ '' in section ''
                           @ quoted sectionID @ '' has no value''))
      else validateOptions sectionID question (Suc j) rest)"

definition validateQuestionWithStrategy ::
  "QuestionValidator option \<Rightarrow> string \<Rightarrow> QuestionConfig \<Rightarrow> go_error option" where
  "validateQuestionWithStrategy validator sectionID question =
     (case validator of
        None \<Rightarrow>
          if Type question = ''text'' then None
          else if Type question = ''buttons''
          then (if length (Options question) = 0
                then Some (PlainErr (''config validation failed: question ''
                                     @ quoted (qID question) @ '' in section '' @ quoted sectionID
                                     @ '' is type '' @ quoted ''buttons''
                                     @ '' but has no options''))
                else validateOptions sectionID question 0 (Options question))
          else Some (PlainErr (''config validation failed: question '' @ quoted (qID question)
                               @ '' in section '' @ quoted sectionID @ '' has unknown type ''
                               @ quoted (Type question)))
      | Some fn \<Rightarrow> fn sectionID question)"

text \<open>The inner loop of \<^verbatim>\<open>Validate\<close> over the questions of one section; \<open>seen\<close> holds the
  keys of \<^verbatim>\<open>uniqueStoreKeys\<close>, and the loop returns them extended, or the first error.\<close>

fun validateQuestions ::
  "QuestionValidator option \<Rightarrow> string \<Rightarrow> nat \<Rightarrow> QuestionConfig list \<Rightarrow> string list
     \<Rightarrow> go_error + string list" where
  "validateQuestions validator sectionID i [] seen = Inr seen"
| "validateQuestions validator sectionID i (question # rest) seen =
     (if qID question = []
      then Inl (PlainErr (''config validation failed: question #'' @ fmtInt (int i + 1)
                          @ '' in section '' @ quoted sectionID @ '' has no id''))
      else if Prompt question = []
      then Inl (PlainErr (''config validation failed: question '' @ quoted (qID question)
                          @ '' in section '' @ quoted sectionID @ '' has no prompt''))
      else if StoreKey question = []
      then Inl (PlainErr (''config validation failed: question '' @ quoted (qID question)
                          @ '' in section '' @ quoted sectionID @ '' has no store_key''))
      else if StoreKey question \<in> set seen
      then Inl (PlainErr (''config validation failed: duplicate store_key ''
                          @ quoted (StoreKey question) @ '' found (in question ''
                          @ quoted (qID question) @ '', section '' @ quoted sectionID @ '')''))
      else (case validateQuestionWithStrategy validator sectionID question of
              Some err \<Rightarrow> Inl err
            | None \<Rightarrow> validateQuestions validator sectionID (Suc i) rest (StoreKey question # seen)))"

text \<open>The outer loop, over the sections in the order the \<^verbatim>\<open>range\<close> yields them.\<close>

fun validateSections ::
  "QuestionValidator option \<Rightarrow> RecordConfig \<Rightarrow> string list \<Rightarrow> string list \<Rightarrow> go_error option" where
  "validateSections validator rc [] seen = None"
| "validateSections validator rc (sectionID # rest) seen =
     (let section = sectionAt rc sectionID
      in if Title section = []
         then Some (PlainErr (''config validation failed: section '' @ quoted sectionID
                              @ '' has no title''))
         else if length (Questions section) = 0
         then validateSections validator rc rest seen
         else (case validateQuestions validator sectionID 0 (Questions section) seen of
                 Inl err \<Rightarrow> Some err
               | Inr seen' \<Rightarrow> validateSections validator rc rest seen'))"

text \<open>\<^verbatim>\<open>(*RecordConfig).Validate\<close>. The third argument is the order of the \<^verbatim>\<open>range\<close> over the
  sections; it lists every key of the map, so \<^verbatim>\<open>len(rc.Sections) == 0\<close> is the list being
  empty.\<close>

definition Validate ::
  "QuestionValidator option \<Rightarrow> RecordConfig option \<Rightarrow> string list \<Rightarrow> go_error option" where
  "Validate validator rc ks =
     (case rc of
        None \<Rightarrow> Some (PlainErr ''config is nil'')
      | Some c \<Rightarrow>
          if length ks = 0 then Some (PlainErr ''config validation failed: no sections defined'')
          else validateSections validator c ks [])"

text \<open>The validator \<^verbatim>\<open>questions.registerValidator\<close> registers.\<close>

definition registryValidator :: "env \<Rightarrow> QuestionValidator" where
  "registryValidator ev sectionID question =
     (case Get ev (Type question) of
        None \<Rightarrow> Some (PlainErr (''config validation failed: question '' @ quoted (qID question)
                                @ '' in section '' @ quoted sectionID @ '' has unknown type ''
                                @ quoted (Type question)))
      | Some strat \<Rightarrow> sValidate strat sectionID question)"

section \<open>The text-and-rating strategy (text_rating_strategy.go)\<close>

definition TextRatingStrategy_Validate :: "string \<Rightarrow> QuestionConfig \<Rightarrow> go_error option" where
  "TextRatingStrategy_Validate sectionID question =
     (if length (Options question) > 0
      then Some (PlainErr ''text_rating question should not have options'')
      else
        (let minRating = RatingMin question; maxRating = RatingMax question
         in if minRating \<noteq> 0 \<and> minRating < 1
            then Some (PlainErr (''rating_min must be at least 1, got '' @ fmtInt minRating))
            else if maxRating \<noteq> 0 \<and> maxRating > 20
            then Some (PlainErr (''rating_max cannot exceed 20, got '' @ fmtInt maxRating))
            else if minRating \<noteq> 0 \<and> maxRating \<noteq> 0 \<and> minRating > maxRating
            then Some (PlainErr (''rating_min ('' @ fmtInt minRating
                                 @ '') cannot be greater than rating_max ('' @ fmtInt maxRating
                                 @ '')''))
            else None))"

definition getRatingRange :: "QuestionConfig \<Rightarrow> int \<times> int" where
  "getRatingRange question =
     (let minRating = (if RatingMin question = 0 then 1 else RatingMin question);
          maxRating = (if RatingMax question = 0 then 10 else RatingMax question)
      in (minRating, maxRating))"

section \<open>The free-text strategy\<close>

definition msgPleaseSendText :: string where
  \<comment> \<open>"Please send a text answer."\<close>
  "msgPleaseSendText =
     [CHR 0xD0, CHR 0x9F, CHR 0xD0, CHR 0xBE, CHR 0xD0, CHR 0xB6, CHR 0xD0, CHR 0xB0, CHR 0xD0,
     CHR 0xBB, CHR 0xD1, CHR 0x83, CHR 0xD0, CHR 0xB9, CHR 0xD1, CHR 0x81, CHR 0xD1, CHR 0x82,
     CHR 0xD0, CHR 0xB0] @ '', '' @ [CHR 0xD0, CHR 0xBE, CHR 0xD1, CHR 0x82, CHR 0xD0, CHR 0xBF,
     CHR 0xD1, CHR 0x80, CHR 0xD0, CHR 0xB0, CHR 0xD0, CHR 0xB2, CHR 0xD1, CHR 0x8C, CHR 0xD1,
     CHR 0x82, CHR 0xD0, CHR 0xB5] @ '' '' @ [CHR 0xD1, CHR 0x82, CHR 0xD0, CHR 0xB5, CHR 0xD0,
     CHR 0xBA, CHR 0xD1, CHR 0x81, CHR 0xD1, CHR 0x82, CHR 0xD0, CHR 0xBE, CHR 0xD0, CHR 0xB2,
     CHR 0xD1, CHR 0x8B, CHR 0xD0, CHR 0xB9] @ '' '' @ [CHR 0xD0, CHR 0xBE, CHR 0xD1, CHR 0x82,
     CHR 0xD0, CHR 0xB2, CHR 0xD0, CHR 0xB5, CHR 0xD1, CHR 0x82] @ ''.''"

definition msgTextMustNotBeEmpty :: string where
  \<comment> \<open>"The text must not be empty, try once more."\<close>
  "msgTextMustNotBeEmpty =
     [CHR 0xD0, CHR 0xA2, CHR 0xD0, CHR 0xB5, CHR 0xD0, CHR 0xBA, CHR 0xD1, CHR 0x81, CHR 0xD1,
     CHR 0x82] @ '' '' @ [CHR 0xD0, CHR 0xBD, CHR 0xD0, CHR 0xB5] @ '' '' @ [CHR 0xD0, CHR 0xB4,
     CHR 0xD0, CHR 0xBE, CHR 0xD0, CHR 0xBB, CHR 0xD0, CHR 0xB6, CHR 0xD0, CHR 0xB5, CHR 0xD0,
     CHR 0xBD] @ '' '' @ [CHR 0xD0, CHR 0xB1, CHR 0xD1, CHR 0x8B, CHR 0xD1, CHR 0x82, CHR 0xD1,
     CHR 0x8C] @ '' '' @ [CHR 0xD0, CHR 0xBF, CHR 0xD1, CHR 0x83, CHR 0xD1, CHR 0x81, CHR 0xD1,
     CHR 0x82, CHR 0xD1, CHR 0x8B, CHR 0xD0, CHR 0xBC] @ '', '' @ [CHR 0xD0, CHR 0xBF, CHR 0xD0,
     CHR 0xBE, CHR 0xD0, CHR 0xBF, CHR 0xD1, CHR 0x80, CHR 0xD0, CHR 0xBE, CHR 0xD0, CHR 0xB1,
     CHR 0xD1, CHR 0x83, CHR 0xD0, CHR 0xB9, CHR 0xD1, CHR 0x82, CHR 0xD0, CHR 0xB5] @ '' '' @
     [CHR 0xD0, CHR 0xB5, CHR 0xD1, CHR 0x89, CHR 0xD1, CHR 0x91] @ '' '' @ [CHR 0xD1, CHR 0x80,
     CHR 0xD0, CHR 0xB0, CHR 0xD0, CHR 0xB7] @ ''.''"

text \<open>\<^verbatim>\<open>RenderContext.ensureRecord\<close>: an error without a record; a nil data map is replaced by
  an empty one.\<close>

definition ensureRecord :: "RenderContext \<Rightarrow> UserState \<Rightarrow> (go_error + ref) \<times> UserState" where
  "ensureRecord ctx us =
     (case ctxRecord ctx of
        None \<Rightarrow> (Inl (PlainErr ''record is nil''), us)
      | Some r \<Rightarrow>
          if Data (heap us r) = None
          then (Inr r, us\<lparr>heap := (heap us)(r := (heap us r)\<lparr>Data := Some Map.empty\<rparr>)\<rparr>)
          else (Inr r, us))"

definition textStrategy_Validate :: "string \<Rightarrow> QuestionConfig \<Rightarrow> go_error option" where
  "textStrategy_Validate sectionID question =
     (if length (Options question) > 0
      then Some (PlainErr (''config validation failed: question '' @ quoted (qID question)
                           @ '' in section '' @ quoted sectionID @ '' is type '' @ quoted ''text''
                           @ '' but has options defined''))
      else None)"

definition textStrategy_Render :: "RenderContext \<Rightarrow> world \<Rightarrow> (go_error + PromptSpec) \<times> world" where
  "textStrategy_Render ctx w =
     (Inr \<lparr>psText = Prompt (ctxQuestion ctx), Keyboard = None, ForceNew = False\<rparr>, w)"

definition textStrategy_HandleAnswer ::
  "env \<Rightarrow> AnswerContext \<Rightarrow> AnswerInput \<Rightarrow> world \<Rightarrow> (go_error + AnswerResult) \<times> world" where
  "textStrategy_HandleAnswer ev ctx input w =
     (case w of (us, p) \<Rightarrow>
      if Source input \<noteq> InputSourceText
      then (Inr \<lparr>Advance = False, Repeat = True, Feedback = msgPleaseSendText\<rparr>, w)
      else
        (let val = trimSpace ev (inText input)
         in if val = []
            then (Inr \<lparr>Advance = False, Repeat = True, Feedback = msgTextMustNotBeEmpty\<rparr>, w)
            else
              (case ensureRecord (RenderContext.truncate ctx) us of
                 (Inl err, us1) \<Rightarrow> (Inl err, (us1, p))
               | (Inr r, us1) \<Rightarrow>
                   (let d = (case Data (heap us1 r) of Some d \<Rightarrow> d | None \<Rightarrow> Map.empty);
                        us2 = us1\<lparr>heap := (heap us1)
                                 (r := (heap us1 r)\<lparr>Data := Some (d(StoreKey (ctxQuestion ctx) \<mapsto> val))\<rparr>)\<rparr>
                    in (Inr \<lparr>Advance = True, Repeat = False, Feedback = []\<rparr>, (us2, p))))))"

definition textStrategy :: "env \<Rightarrow> strategy" where
  "textStrategy ev =
     \<lparr>sName = ''text'', sValidate = textStrategy_Validate, sRender = textStrategy_Render,
      sHandleAnswer = textStrategy_HandleAnswer ev\<rparr>"

section \<open>Example values\<close>

text \<open>A small schema, a user state and ports, on which the theorems below are run.\<close>

definition exQuestion :: "string \<Rightarrow> string \<Rightarrow> string \<Rightarrow> QuestionConfig" where
  "exQuestion i pr k =
     \<lparr>qID = i, Prompt = pr, Type = ''text'', StoreKey = k, Options = [], RatingMin = 0,
      RatingMax = 0, NextButtonLabel = [], FinishButtonLabel = []\<rparr>"

definition exConfig :: RecordConfig where
  "exConfig =
     \<lparr>Sections = Some [''a'' \<mapsto> \<lparr>Title = ''Section A'',
                                  Questions = [exQuestion ''q1'' ''P1'' ''k1'',
                                               exQuestion ''q2'' ''P2'' ''k2'']\<rparr>,
                        ''b'' \<mapsto> \<lparr>Title = ''Section B'', Questions = []\<rparr>],
      Metadata = None\<rparr>"

definition exEnv :: env where
  "exEnv =
     \<lparr>now = 1700000000000000000, formatTime = (\<lambda>layout t. fmtInt t),
      rangeOrder = [''b'', ''a''], forwardTpl = defaultForwardTpl, targetUserID = 999,
      registry = Map.empty, toLower = (\<lambda>s. s), trimSpace = (\<lambda>s. s),
      runesOf = map of_char, stringOfRunes = map char_of,
      showSectionSelectionMenu = (\<lambda>chatID messageID w. w)\<rparr>"

definition exSaved :: Record where
  "exSaved = \<lparr>ID = ''1-5'', Data = Some [''k1'' \<mapsto> ''answer 1''], IsSaved = True, CreatedAt = 5\<rparr>"

definition exDraft :: Record where
  "exDraft = \<lparr>ID = [], Data = Some [''k1'' \<mapsto> ''draft''], IsSaved = False,
              CreatedAt = zeroTime\<rparr>"

definition exState :: UserState where
  "exState =
     \<lparr>UserID = 1, UserName = ''User'', Records = [Some 0], MainMenuFSM = StateIdle,
      RecordFSM = StateRecordIdle, CurrentRecord = Some 1, CurrentSection = [],
      CurrentQuestion = 0, LastMessageID = 0, LastPrompt = zeroBotMessage, ListOffset = 0,
      heap = (\<lambda>r. NewRecord)(0 := exSaved, Suc 0 := exDraft), nextRef = 2\<rparr>"

definition exMessage :: "int \<Rightarrow> BotMessage" where
  "exMessage n =
     \<lparr>ChatID = 1, MessageID = n, Transport = ''telegram'', Payload = [], Meta = None\<rparr>"

text \<open>A port whose every call succeeds, and one whose first call fails as
  \<^verbatim>\<open>fakeadapter.RateLimited\<close> scripts it.\<close>

definition exPort :: port where
  "exPort = \<lparr>calls = [], replies = (\<lambda>n. Inr (exMessage (int n + 1)))\<rparr>"

definition exRateLimited :: go_error where
  "exRateLimited =
     BotErr \<lparr>Op = ''send_message'', Code = ''rate_limited'', RetryAfter = 0,
             Wrapped = Some ''rate limited''\<rparr>"

definition exFailingPort :: port where
  "exFailingPort =
     \<lparr>calls = [], replies = (\<lambda>n. if n = 0 then Inl exRateLimited else Inr (exMessage (int n + 1)))\<rparr>"

text \<open>A state with two saved records (the later one at address 2) and an unsaved one after
  them, beside the draft.\<close>

definition exTwoSaved :: UserState where
  "exTwoSaved = exState\<lparr>Records := [Some 0, Some 2, Some 3],
                        heap := (heap exState)(2 := exSaved\<lparr>ID := ''1-9''\<rparr>, 3 := exDraft)\<rparr>"

text \<open>The saved record with the second question answered too.\<close>

definition exAnswered :: Record where
  "exAnswered = exSaved\<lparr>Data := Some [''k1'' \<mapsto> ''answer 1'', ''k2'' \<mapsto> ''answer 2'']\<rparr>"

text \<open>The state while the second question of section \<open>a\<close> is being answered, and a callback
  that answers the first question.\<close>

definition exAnswering :: UserState where
  "exAnswering = exState\<lparr>RecordFSM := StateAnsweringQuestion, CurrentSection := ''a'',
                         CurrentQuestion := 1, LastMessageID := 10\<rparr>"

definition exStaleQuery :: CallbackQuery where
  "exStaleQuery = \<lparr>cqID = ''cb1'', cqChatID = 1, cqMessageID = 10, cqMessageText = [],
                   cqData = ''answer:q1:tb''\<rparr>"

text \<open>The state while the section menu is shown, with the draft at address 1.\<close>

definition exSelecting :: UserState where
  "exSelecting = exState\<lparr>RecordFSM := StateSelectingSection, LastMessageID := 10\<rparr>"

text \<open>The state while the list is shown at offset 7, a list-navigation callback, and the
  same state with the offset at the largest multiple of 5 a 64-bit integer holds.\<close>

definition exViewing :: UserState where
  "exViewing = exState\<lparr>MainMenuFSM := StateViewingList, ListOffset := 7\<rparr>"

definition exNavQuery :: "string \<Rightarrow> CallbackQuery" where
  "exNavQuery nav = \<lparr>cqID = ''cb2'', cqChatID = 1, cqMessageID = 10, cqMessageText = [],
                     cqData = ''list_nav:'' @ nav\<rparr>"

definition exOverflowing :: UserState where
  "exOverflowing = exViewing\<lparr>ListOffset := 9223372036854775805\<rparr>"

text \<open>The environment with the free-text strategy registered; the error
  \<^verbatim>\<open>fakeadapter.MessageNotModified("edit_message")\<close> builds; and a port whose first call
  fails with it.\<close>

definition exEnvText :: env where
  "exEnvText = exEnv\<lparr>registry := [''text'' \<mapsto> textStrategy exEnv]\<rparr>"

definition exNotModified :: go_error where
  "exNotModified =
     BotErr \<lparr>Op = ''edit_message'', Code = ''message_not_modified'', RetryAfter = 0,
             Wrapped = None\<rparr>"

definition exNotModifiedPort :: port where
  "exNotModifiedPort =
     \<lparr>calls = [],
      replies = (\<lambda>n. if n = 0 then Inl exNotModified else Inr (exMessage (int n + 1)))\<rparr>"

text \<open>Questions of the text-and-rating type: one with only \<^verbatim>\<open>rating_min: 15\<close> configured, one
  with only \<^verbatim>\<open>rating_max: -3\<close>.\<close>

definition exRatingMinOnly :: QuestionConfig where
  "exRatingMinOnly = (exQuestion ''r1'' ''Rate'' ''rating'')\<lparr>Type := ''text_rating'', RatingMin := 15\<rparr>"

definition exRatingMaxOnly :: QuestionConfig where
  "exRatingMaxOnly = (exQuestion ''r2'' ''Rate'' ''rating2'')\<lparr>Type := ''text_rating'', RatingMax := - 3\<rparr>"

section \<open>Properties of the outbound port model\<close>

lemma SendMessage_snd:
  "snd (SendMessage p c t m) = p\<lparr>calls := calls p @ [SendMessageCall c t m]\<rparr>"
  by (simp add: SendMessage_def portCall_def)

lemma SendMessage_fst: "fst (SendMessage p c t m) = replies p (length (calls p))"
  by (simp add: SendMessage_def portCall_def)

lemma AnswerCallback_snd:
  "snd (AnswerCallback p c t) = p\<lparr>calls := calls p @ [AnswerCallbackCall c t]\<rparr>"
  by (simp add: AnswerCallback_def portCall_def split: sum.splits)

lemma EditMessage_snd:
  "snd (EditMessage p c i t m) = p\<lparr>calls := calls p @ [EditMessageCall c i t m]\<rparr>"
  by (simp add: EditMessage_def portCall_def)

section \<open>Forward pipeline\<close>

lemma defaultForwardTpl_nonempty: "defaultForwardTpl pl = Inr t \<Longrightarrow> t \<noteq> []"
  by (auto simp: defaultForwardTpl_def tplUserAnswers_def)

lemma exState_selects_saved: "selectRecordForForward exState = Some 0"
  by (simp add: selectRecordForForward_def exState_def exSaved_def)

text \<open>
  Claim C1. Whenever a forward reaches the send to the target (a record is selected, the
  target is configured where that is required, the message renders to a non-empty text)
  and that send returns an error, the call returns the user state it was given, with its
  records, draft pointer, position, last message identifier, last prompt and every record
  on the heap as they were, and the port has seen two calls: the send to the target and
  the failure notice to the requester. The reviewer-forward and the self-forward are the
  instances \<open>handleForwardAnsweredSections\<close> and \<open>handleForwardToSelf\<close> of
  \<open>forwardWithTarget\<close>.
\<close>

theorem forward_failure_keeps_state:
  assumes sel: "selectRecordForForward us = Some record"
      and cfg: "\<not> (requireConfigured \<and> targetID = 0)"
      and pay: "buildForwardPayload ev rc (Some (heap us record)) us = Inr payload"
      and ren: "renderForwardMessage ev payload = Inr text"
      and nonempty: "text \<noteq> []"
      and err: "fst (SendMessage p targetID text NilMarkup) = Inl e"
  shows "forwardWithTarget ev rc chatID targetID clearOnSuccess requireConfigured successText
           (us, p)
         = Inr (us, p\<lparr>calls := calls p @ [SendMessageCall targetID text NilMarkup,
                                           SendMessageCall chatID msgForwardFailed NilMarkup]\<rparr>)"
proof -
  obtain p1 where s: "SendMessage p targetID text NilMarkup = (Inl e, p1)"
    using err by (cases "SendMessage p targetID text NilMarkup") auto
  have p1: "p1 = p\<lparr>calls := calls p @ [SendMessageCall targetID text NilMarkup]\<rparr>"
    using s SendMessage_snd [of p targetID "text" NilMarkup] by simp
  have c: "(requireConfigured \<and> targetID = 0) = False" using cfg by simp
  show ?thesis
    using sel pay ren nonempty s
    by (simp add: forwardWithTarget_def p1 SendMessage_snd c)
qed

theorem forward_failure_keeps_state_witness:
  "\<exists>text. text \<noteq> [] \<and>
     handleForwardAnsweredSections exEnv exConfig 1 (exState, exFailingPort)
       = Inr (exState, exFailingPort\<lparr>calls := [SendMessageCall 999 text NilMarkup,
                                                SendMessageCall 1 msgForwardFailed NilMarkup]\<rparr>)"
proof -
  obtain payload where
    pay: "buildForwardPayload exEnv exConfig (Some (heap exState 0)) exState = Inr payload"
    by (simp add: buildForwardPayload_def)
  obtain t where ren: "renderForwardMessage exEnv payload = Inr t"
    by (simp add: renderForwardMessage_def exEnv_def defaultForwardTpl_def)
  have ne: "t \<noteq> []"
    using ren defaultForwardTpl_nonempty [of payload t]
    by (simp add: renderForwardMessage_def exEnv_def split: sum.splits)
  have cfg: "\<not> (True \<and> (999::int) = 0)" by simp
  have err: "fst (SendMessage exFailingPort 999 t NilMarkup) = Inl exRateLimited"
    by (simp add: SendMessage_def portCall_def exFailingPort_def)
  have "forwardWithTarget exEnv exConfig 1 999 False True successTextTarget
          (exState, exFailingPort)
        = Inr (exState, exFailingPort\<lparr>calls := calls exFailingPort
                 @ [SendMessageCall 999 t NilMarkup,
                    SendMessageCall 1 msgForwardFailed NilMarkup]\<rparr>)"
    using forward_failure_keeps_state [OF exState_selects_saved cfg pay ren ne err] .
  moreover have "calls exFailingPort = []" by (simp add: exFailingPort_def)
  moreover have "targetUserID exEnv = 999" by (simp add: exEnv_def)
  ultimately show ?thesis
    using ne by (auto simp: handleForwardAnsweredSections_def handleForwardToTarget_def)
qed

section \<open>Record machine\<close>

lemma sendMainMenu_fst: "fst (sendMainMenu (us, p)) = us"
  by (simp add: sendMainMenu_def Let_def)

lemma enterRecordIdle_save_state:
  assumes "CurrentRecord us = Some r"
  shows "fst (enterRecordIdle ev EventSaveFullRecord chatID messageID reason (us, p))
         = us\<lparr>heap := (heap us)(r := (heap us r)
                  \<lparr>ID := fmtInt (UserID us) @ ''-'' @ fmtInt (now ev),
                   IsSaved := True, CreatedAt := now ev\<rparr>),
               Records := Records us @ [Some r],
               CurrentSection := [], CurrentQuestion := 0, LastMessageID := 0,
               CurrentRecord := None\<rparr>"
  using assms by (simp add: enterRecordIdle_def Let_def sendMainMenu_fst)

text \<open>
  Claim C2. With a draft at hand, firing \<open>save-record\<close> in \<open>selecting-section\<close> is accepted
  and takes the machine to \<open>record-idle\<close>; the draft is marked saved, given the identifier
  "participant-timestamp" (which is not empty) and the current time as its creation time,
  with its data and every other record untouched; the records list is the old list with
  the draft appended at its end, so the draft is in it exactly once when it was not in it
  before; the draft pointer is none, and the current section, question index and last
  message identifier are zeroed.
\<close>

theorem save_record_finalizes_draft:
  assumes st: "RecordFSM us = StateSelectingSection"
      and draft: "CurrentRecord us = Some r"
      and fired: "RecordFSM_Event ev rc EventSaveFullRecord chatID messageID reason (us, p)
                  = (err, (us', p'))"
  shows "err = None \<and> RecordFSM us' = StateRecordIdle
         \<and> IsSaved (heap us' r) \<and> ID (heap us' r) \<noteq> [] \<and> CreatedAt (heap us' r) = now ev
         \<and> Data (heap us' r) = Data (heap us r)
         \<and> (\<forall>x. x \<noteq> r \<longrightarrow> heap us' x = heap us x)
         \<and> Records us' = Records us @ [Some r]
         \<and> (Some r \<notin> set (Records us) \<longrightarrow> count_list (Records us') (Some r) = 1)
         \<and> CurrentRecord us' = None
         \<and> CurrentSection us' = [] \<and> CurrentQuestion us' = 0 \<and> LastMessageID us' = 0"
proof -
  have e: "err = None"
    and u: "us' = fst (enterRecordIdle ev EventSaveFullRecord chatID messageID reason
                        (us\<lparr>RecordFSM := StateRecordIdle\<rparr>, p))"
    using fired st by (auto simp: RecordFSM_Event_def Let_def)
  have d: "CurrentRecord (us\<lparr>RecordFSM := StateRecordIdle\<rparr>) = Some r" using draft by simp
  show ?thesis
    unfolding u enterRecordIdle_save_state [OF d] using e
    by (simp add: count_list_0_iff)
qed

theorem save_record_finalizes_draft_witness:
  "(let res = RecordFSM_Event exEnv exConfig EventSaveFullRecord 1 10 [] (exSelecting, exPort);
        us' = fst (snd res)
    in fst res = None \<and> RecordFSM us' = StateRecordIdle \<and> IsSaved (heap us' 1)
       \<and> ID (heap us' 1) \<noteq> [] \<and> CreatedAt (heap us' 1) = 1700000000000000000
       \<and> Records us' = [Some 0, Some 1] \<and> count_list (Records us') (Some 1) = 1
       \<and> CurrentRecord us' = None \<and> CurrentSection us' = [] \<and> CurrentQuestion us' = 0
       \<and> LastMessageID us' = 0)"
proof -
  obtain err us' p' where
    fired: "RecordFSM_Event exEnv exConfig EventSaveFullRecord 1 10 [] (exSelecting, exPort)
            = (err, (us', p'))"
    by (metis prod.exhaust)
  have st: "RecordFSM exSelecting = StateSelectingSection" by (simp add: exSelecting_def)
  have draft: "CurrentRecord exSelecting = Some 1" by (simp add: exSelecting_def exState_def)
  have recs: "Records exSelecting = [Some 0]" by (simp add: exSelecting_def exState_def)
  have n: "now exEnv = 1700000000000000000" by (simp add: exEnv_def)
  show ?thesis
    using save_record_finalizes_draft [OF st draft fired] recs n
    by (simp add: fired)
qed

lemma lastSavedIn_None:
  "(lastSavedIn h rs = None) = (\<forall>x. Some x \<in> set rs \<longrightarrow> \<not> IsSaved (h x))"
  by (induction h rs rule: lastSavedIn.induct) auto

lemma lastSavedIn_skip:
  "\<forall>x. Some x \<in> set newer \<longrightarrow> \<not> IsSaved (h x)
   \<Longrightarrow> lastSavedIn h (newer @ rest) = lastSavedIn h rest"
  by (induction h newer rule: lastSavedIn.induct) auto

text \<open>
  Claim C3. Selection for forwarding returns the last record of the list that is saved
  (every record after it is nil or unsaved), whether or not there is a draft; when no
  record of the list is saved it returns the draft pointer, which is the draft when there
  is one and nothing otherwise; and when nothing is selected the pipeline sends the
  nothing-to-send notice to the requester and returns the state unchanged.
\<close>

theorem selection_prefers_latest_saved:
  "(Records us = older @ Some r # newer \<and> IsSaved (heap us r)
      \<and> (\<forall>x. Some x \<in> set newer \<longrightarrow> \<not> IsSaved (heap us x))
      \<longrightarrow> selectRecordForForward us = Some r)
   \<and> ((\<forall>x. Some x \<in> set (Records us) \<longrightarrow> \<not> IsSaved (heap us x))
      \<longrightarrow> selectRecordForForward us = CurrentRecord us)
   \<and> ((\<forall>x. Some x \<in> set (Records us) \<longrightarrow> \<not> IsSaved (heap us x)) \<and> CurrentRecord us = None
      \<longrightarrow> forwardWithTarget ev rc chatID targetID clearOnSuccess requireConfigured successText
            (us, p)
          = Inr (us, p\<lparr>calls := calls p
                       @ [SendMessageCall chatID msgNoAnswersToSend NilMarkup]\<rparr>))"
proof (intro conjI impI)
  assume a: "Records us = older @ Some r # newer \<and> IsSaved (heap us r)
      \<and> (\<forall>x. Some x \<in> set newer \<longrightarrow> \<not> IsSaved (heap us x))"
  then have "\<forall>x. Some x \<in> set (rev newer) \<longrightarrow> \<not> IsSaved (heap us x)" by simp
  then have "lastSavedIn (heap us) (rev newer @ Some r # rev older)
             = lastSavedIn (heap us) (Some r # rev older)"
    by (rule lastSavedIn_skip)
  then show "selectRecordForForward us = Some r"
    using a by (simp add: selectRecordForForward_def)
next
  assume "\<forall>x. Some x \<in> set (Records us) \<longrightarrow> \<not> IsSaved (heap us x)"
  then have "lastSavedIn (heap us) (rev (Records us)) = None"
    by (simp add: lastSavedIn_None)
  then show "selectRecordForForward us = CurrentRecord us"
    by (simp add: selectRecordForForward_def split: option.splits)
next
  assume a: "(\<forall>x. Some x \<in> set (Records us) \<longrightarrow> \<not> IsSaved (heap us x))
             \<and> CurrentRecord us = None"
  then have "lastSavedIn (heap us) (rev (Records us)) = None"
    by (simp add: lastSavedIn_None)
  then have "selectRecordForForward us = None"
    using a by (simp add: selectRecordForForward_def)
  then show "forwardWithTarget ev rc chatID targetID clearOnSuccess requireConfigured successText
            (us, p)
          = Inr (us, p\<lparr>calls := calls p
                       @ [SendMessageCall chatID msgNoAnswersToSend NilMarkup]\<rparr>)"
    by (simp add: forwardWithTarget_def SendMessage_snd)
qed

theorem selection_prefers_latest_saved_witness:
  "selectRecordForForward exTwoSaved = Some 2
   \<and> selectRecordForForward (exState\<lparr>Records := []\<rparr>) = Some 1
   \<and> handleForwardToSelf exEnv exConfig 1
       (exState\<lparr>Records := [], CurrentRecord := None\<rparr>, exPort)
       = Inr (exState\<lparr>Records := [], CurrentRecord := None\<rparr>,
              exPort\<lparr>calls := [SendMessageCall 1 msgNoAnswersToSend NilMarkup]\<rparr>)"
proof -
  have 1: "Records exTwoSaved = [Some 0] @ Some 2 # [Some 3] \<and> IsSaved (heap exTwoSaved 2)
      \<and> (\<forall>x. Some x \<in> set [Some 3] \<longrightarrow> \<not> IsSaved (heap exTwoSaved x))"
    by (simp add: exTwoSaved_def exState_def exSaved_def exDraft_def)
  have 2: "\<forall>x. Some x \<in> set (Records (exState\<lparr>Records := []\<rparr>))
             \<longrightarrow> \<not> IsSaved (heap (exState\<lparr>Records := []\<rparr>) x)"
    by simp
  have 3: "(\<forall>x. Some x \<in> set (Records (exState\<lparr>Records := [], CurrentRecord := None\<rparr>))
             \<longrightarrow> \<not> IsSaved (heap (exState\<lparr>Records := [], CurrentRecord := None\<rparr>) x))
           \<and> CurrentRecord (exState\<lparr>Records := [], CurrentRecord := None\<rparr>) = None"
    by simp
  have c: "CurrentRecord (exState\<lparr>Records := []\<rparr>) = Some 1" by (simp add: exState_def)
  have e: "calls exPort = []" by (simp add: exPort_def)
  show ?thesis
    using selection_prefers_latest_saved [of exTwoSaved "[Some 0]" 2 "[Some 3]"] 1
          selection_prefers_latest_saved [of "exState\<lparr>Records := []\<rparr>"] 2 c
          selection_prefers_latest_saved [of "exState\<lparr>Records := [], CurrentRecord := None\<rparr>"
             _ _ _ exEnv exConfig 1 1 False False successTextSelf exPort] 3 e
    by (simp add: handleForwardToSelf_def)
qed

lemma ex_sorted: "sort (rangeOrder exEnv) = [''a'', ''b'']"
  by (simp add: exEnv_def)

lemma ex_sectionAt_a:
  "sectionAt exConfig ''a''
   = \<lparr>Title = ''Section A'',
      Questions = [exQuestion ''q1'' ''P1'' ''k1'', exQuestion ''q2'' ''P2'' ''k2'']\<rparr>"
  by (simp add: sectionAt_def sectionsMap_def exConfig_def)

lemma ex_sectionsMap_a: "sectionsMap exConfig ''a'' \<noteq> None"
  by (simp add: sectionsMap_def exConfig_def)

lemma ex_dom: "dom (sectionsMap exConfig) = {''a'', ''b''}"
  by (auto simp: sectionsMap_def exConfig_def)

lemma ex_sectionAt_b: "sectionAt exConfig ''b'' = \<lparr>Title = ''Section B'', Questions = []\<rparr>"
  by (simp add: sectionAt_def sectionsMap_def exConfig_def)

text \<open>
  Claim C4. In the payload built for a record, the slot of question \<open>j\<close> of section \<open>i\<close>
  (sections in sorted order, questions in declared order) holds the question's prompt
  and the literal \<open>no_answer\<close> whenever the record's data map has no entry for the
  question's storage key or has the empty string there. Against the payload of any other
  record \<open>r'\<close> (the fully answered one), every slot whose storage key reads the same in both
  records is the same, and the section titles and the prompts of all slots are the same.
\<close>

theorem missing_answer_substitution:
  assumes pl: "buildForwardPayload ev rc (Some r) us = Inr pl"
      and pl': "buildForwardPayload ev rc (Some r') us = Inr pl'"
      and i: "i < length (sort (rangeOrder ev))"
      and j: "j < length (Questions (sectionAt rc (sort (rangeOrder ev) ! i)))"
      and q: "q = Questions (sectionAt rc (sort (rangeOrder ev) ! i)) ! j"
  shows "(dataAt r (StoreKey q) = None \<or> dataAt r (StoreKey q) = Some []
           \<longrightarrow> fsQuestions (fpSections pl ! i) ! j
               = \<lparr>fqPrompt = Prompt q, fqAnswer = ''no_answer''\<rparr>)
         \<and> (dataAt r (StoreKey q) = dataAt r' (StoreKey q)
           \<longrightarrow> fsQuestions (fpSections pl ! i) ! j = fsQuestions (fpSections pl' ! i) ! j)
         \<and> map fsTitle (fpSections pl) = map fsTitle (fpSections pl')
         \<and> map (map fqPrompt \<circ> fsQuestions) (fpSections pl)
           = map (map fqPrompt \<circ> fsQuestions) (fpSections pl')"
  using assms
  by (auto simp: buildForwardPayload_def forwardSectionOf_def forwardAnswer_def Let_def
        noAnswerPlaceholder_def split: option.splits)

theorem missing_answer_substitution_witness:
  "\<exists>pl pl'. buildForwardPayload exEnv exConfig (Some exSaved) exState = Inr pl
     \<and> buildForwardPayload exEnv exConfig (Some exAnswered) exState = Inr pl'
     \<and> fsQuestions (fpSections pl ! 0) ! 1 = \<lparr>fqPrompt = ''P2'', fqAnswer = ''no_answer''\<rparr>
     \<and> fsQuestions (fpSections pl ! 0) ! 0 = fsQuestions (fpSections pl' ! 0) ! 0
     \<and> fsQuestions (fpSections pl' ! 0) ! 1 = \<lparr>fqPrompt = ''P2'', fqAnswer = ''answer 2''\<rparr>"
proof -
  obtain pl where pl: "buildForwardPayload exEnv exConfig (Some exSaved) exState = Inr pl"
    by (simp add: buildForwardPayload_def)
  obtain pl' where pl': "buildForwardPayload exEnv exConfig (Some exAnswered) exState = Inr pl'"
    by (simp add: buildForwardPayload_def)
  have i: "0 < length (sort (rangeOrder exEnv))" by (simp add: ex_sorted)
  have j1: "1 < length (Questions (sectionAt exConfig (sort (rangeOrder exEnv) ! 0)))"
    by (simp add: ex_sorted ex_sectionAt_a)
  have j0: "0 < length (Questions (sectionAt exConfig (sort (rangeOrder exEnv) ! 0)))"
    by (simp add: ex_sorted ex_sectionAt_a)
  have q1: "exQuestion ''q2'' ''P2'' ''k2'' = Questions (sectionAt exConfig (sort (rangeOrder exEnv) ! 0)) ! 1"
    by (simp add: ex_sorted ex_sectionAt_a)
  have q0: "exQuestion ''q1'' ''P1'' ''k1'' = Questions (sectionAt exConfig (sort (rangeOrder exEnv) ! 0)) ! 0"
    by (simp add: ex_sorted ex_sectionAt_a)
  have m: "dataAt exSaved (StoreKey (exQuestion ''q2'' ''P2'' ''k2'')) = None"
    by (simp add: dataAt_def exSaved_def exQuestion_def)
  have s: "dataAt exSaved (StoreKey (exQuestion ''q1'' ''P1'' ''k1''))
           = dataAt exAnswered (StoreKey (exQuestion ''q1'' ''P1'' ''k1''))"
    by (simp add: dataAt_def exSaved_def exAnswered_def exQuestion_def)
  have a: "fsQuestions (fpSections pl ! 0) ! 1 = \<lparr>fqPrompt = ''P2'', fqAnswer = ''no_answer''\<rparr>"
    using missing_answer_substitution [OF pl pl' i j1 q1] m by (simp add: exQuestion_def)
  have b: "fsQuestions (fpSections pl ! 0) ! 0 = fsQuestions (fpSections pl' ! 0) ! 0"
    using missing_answer_substitution [OF pl pl' i j0 q0] s by simp
  have c: "fsQuestions (fpSections pl' ! 0) ! 1 = \<lparr>fqPrompt = ''P2'', fqAnswer = ''answer 2''\<rparr>"
    using pl' by (auto simp: buildForwardPayload_def ex_sorted forwardSectionOf_def ex_sectionAt_a
        forwardAnswer_def dataAt_def exAnswered_def exQuestion_def noAnswerPlaceholder_def)
  show ?thesis using pl pl' a b c by blast
qed

section \<open>Callback dispatch\<close>

lemma splitColon_no_colon: "CHR '':'' \<notin> set a \<Longrightarrow> splitColon (a @ CHR '':'' # b) = (a, Some b)"
  by (induction a) auto

lemma splitColon_answer: "splitColon (CallbackAnswerPrefix @ rest) = (''answer'', Some rest)"
  by (simp add: CallbackAnswerPrefix_def)

text \<open>
  Claim C5. In \<open>answering-question\<close>, a callback whose payload is \<open>answer:\<close>, a question
  identifier (which has no colon in it), a colon and an option value, and whose question
  identifier is not the one of the current question, leaves the whole user state as it
  was (the draft's data on the heap, both machines, the position) and makes two port
  calls: the acknowledgement every callback gets, and the stale-button notice.
\<close>

theorem stale_answer_callback_is_noop:
  assumes st: "RecordFSM us = StateAnsweringQuestion"
      and data: "cqData query = CallbackAnswerPrefix @ questionID @ '':'' @ optionValue"
      and nocolon: "CHR '':'' \<notin> set questionID"
      and stale: "questionID \<noteq> currentQuestionID rc us"
  shows "handleCallbackQuery ev rc query (us, p)
         = Inr (us, p\<lparr>calls := calls p @ [AnswerCallbackCall (cqID query) [],
                                           AnswerCallbackCall (cqID query) msgStaleAnswer]\<rparr>)"
proof -
  have 1: "splitColon (cqData query) = (''answer'', Some (questionID @ '':'' @ optionValue))"
    using data splitColon_answer by simp
  have 2: "splitColon (questionID @ '':'' @ optionValue) = (questionID, Some optionValue)"
    using splitColon_no_colon [OF nocolon, of optionValue] by simp
  have 3: "currentQuestionID rc us \<noteq> questionID" using stale by simp
  have "handleAnswerCallback ev rc query (questionID @ '':'' @ optionValue)
          (us, p\<lparr>calls := calls p @ [AnswerCallbackCall (cqID query) []]\<rparr>)
        = Inr (us, p\<lparr>calls := calls p @ [AnswerCallbackCall (cqID query) [],
                                           AnswerCallbackCall (cqID query) msgStaleAnswer]\<rparr>)"
    using st 2 3 by (simp add: handleAnswerCallback_def AnswerCallback_snd)
  then show ?thesis
    using 1 by (simp add: handleCallbackQuery_def AnswerCallback_snd CallbackAnswerPrefix_def)
qed

theorem stale_answer_callback_is_noop_witness:
  "currentQuestionID exConfig exAnswering = ''q2''
   \<and> handleCallbackQuery exEnv exConfig exStaleQuery (exAnswering, exPort)
     = Inr (exAnswering, exPort\<lparr>calls := [AnswerCallbackCall ''cb1'' [],
                                            AnswerCallbackCall ''cb1'' msgStaleAnswer]\<rparr>)"
proof -
  have st: "RecordFSM exAnswering = StateAnsweringQuestion" by (simp add: exAnswering_def)
  have data: "cqData exStaleQuery = CallbackAnswerPrefix @ ''q1'' @ '':'' @ ''tb''"
    by (simp add: exStaleQuery_def CallbackAnswerPrefix_def)
  have nocolon: "CHR '':'' \<notin> set ''q1''" by simp
  have cur: "currentQuestionID exConfig exAnswering = ''q2''"
    by (simp add: currentQuestionID_def exAnswering_def exState_def ex_sectionAt_a
        ex_sectionsMap_a exQuestion_def Let_def)
  have stale: "''q1'' \<noteq> currentQuestionID exConfig exAnswering" by (simp add: cur)
  show ?thesis
    using stale_answer_callback_is_noop [OF st data nocolon stale, of exEnv exPort] cur
    by (simp add: exStaleQuery_def exPort_def)
qed

section \<open>Order of the section buttons\<close>

text \<open>
  Claim C6. The section menu lists the sections in the order \<open>getSortedSectionIDs\<close>
  returns, which is the order the runtime's \<open>range\<close> over the map took: for the schema with
  sections \<open>a\<close> and \<open>b\<close>, the two orders a \<open>range\<close> may take give two different keyboards,
  while the forward aggregation, which sorts, lists \<open>a\<close> before \<open>b\<close> under both.
\<close>

theorem section_keyboard_follows_range_order:
  "rangeOrderOf exConfig [''a'', ''b''] \<and> rangeOrderOf exConfig [''b'', ''a'']
   \<and> sectionButtonRows (exEnv\<lparr>rangeOrder := [''a'', ''b'']\<rparr>) exConfig (Some Map.empty)
     = [[ButtonData ''Section A'' ''section:a''], [ButtonData ''Section B'' ''section:b'']]
   \<and> sectionButtonRows (exEnv\<lparr>rangeOrder := [''b'', ''a'']\<rparr>) exConfig (Some Map.empty)
     = [[ButtonData ''Section B'' ''section:b''], [ButtonData ''Section A'' ''section:a'']]
   \<and> map fsTitle (fpSections (projr (buildForwardPayload (exEnv\<lparr>rangeOrder := [''a'', ''b'']\<rparr>)
                                       exConfig (Some exSaved) exState)))
     = [''Section A'', ''Section B'']
   \<and> map fsTitle (fpSections (projr (buildForwardPayload (exEnv\<lparr>rangeOrder := [''b'', ''a'']\<rparr>)
                                       exConfig (Some exSaved) exState)))
     = [''Section A'', ''Section B'']"
  by (simp add: rangeOrderOf_def ex_dom sectionButtonRows_def getSortedSectionIDs_def
      ex_sectionAt_a ex_sectionAt_b sectionHasData_def exQuestion_def CallbackSectionPrefix_def
      buildForwardPayload_def forwardSectionOf_def exEnv_def insert_commute)

section \<open>Message not modified\<close>

lemma enterRecordIdle_forceExit_state:
  "fst (enterRecordIdle ev EventForceExit chatID messageID reason (us, p))
   = us\<lparr>CurrentSection := [], CurrentQuestion := 0, LastMessageID := 0\<rparr>"
  by (simp add: enterRecordIdle_def Let_def sendMainMenu_def split: prod.splits sum.splits)

lemma forceExit_state:
  assumes "RecordFSM us = StateSelectingSection \<or> RecordFSM us = StateAnsweringQuestion"
  shows "fst (snd (forceExit ev chatID messageID reason (us, p)))
         = us\<lparr>RecordFSM := StateRecordIdle, CurrentSection := [], CurrentQuestion := 0,
               LastMessageID := 0\<rparr>"
  using assms by (auto simp: forceExit_def enterRecordIdle_forceExit_state)

text \<open>The event fired from inside a callback is the machine's own \<open>force-exit\<close>.\<close>

lemma RecordFSM_Event_forceExit:
  "RecordFSM_Event ev rc EventForceExit chatID messageID reason w
   = forceExit ev chatID messageID reason w"
  by (cases w; cases "RecordFSM (fst w)")
     (simp_all add: RecordFSM_Event_def forceExit_def)

lemma enterSelectingSection_edit_error:
  assumes "Sections rc \<noteq> None" and "CurrentRecord us = Some r" and "Data (heap us r) \<noteq> None"
      and "messageID \<noteq> 0" and "replies p (length (calls p)) = Inl err"
      and "\<not> strContains (errorText err) notModifiedText"
      and "RecordFSM us = StateSelectingSection"
  shows "fst (enterSelectingSection ev rc chatID messageID (us, p))
         = us\<lparr>RecordFSM := StateRecordIdle, CurrentSection := [], CurrentQuestion := 0,
               LastMessageID := 0\<rparr>"
  using assms
  by (auto simp: enterSelectingSection_def Let_def EditMessage_def portCall_def forceExit_state)

lemma ex_not_contains: "\<not> strContains (errorText exNotModified) notModifiedText"
  by (simp add: exNotModified_def botErrorText_def notModifiedText_def)

text \<open>
  Claim C7. \<open>askCurrentQuestion\<close> recognises the error by its code and keeps the message
  identifier. \<open>enterSelectingSection\<close> looks for the text "message is not modified" in the
  error's message instead: given the port error with code \<open>message_not_modified\<close> and no
  wrapped error (its message is "edit_message: message_not_modified"), it fires
  \<open>force-exit\<close>, the machine ends in \<open>record-idle\<close> and the last message identifier, 10
  before, is 0.
\<close>

theorem section_menu_not_modified_forces_exit:
  "IsCode exNotModified ''message_not_modified''
   \<and> LastMessageID exSelecting = 10
   \<and> RecordFSM (fst (enterSelectingSection exEnv exConfig 1 10 (exSelecting, exNotModifiedPort)))
     = StateRecordIdle
   \<and> LastMessageID (fst (enterSelectingSection exEnv exConfig 1 10
                           (exSelecting, exNotModifiedPort))) = 0
   \<and> LastMessageID exAnswering = 10
   \<and> RecordFSM (fst (askCurrentQuestion exEnvText exConfig 10 (exAnswering, exNotModifiedPort)))
     = StateAnsweringQuestion
   \<and> LastMessageID (fst (askCurrentQuestion exEnvText exConfig 10
                           (exAnswering, exNotModifiedPort))) = 10"
proof -
  have s: "fst (enterSelectingSection exEnv exConfig 1 10 (exSelecting, exNotModifiedPort))
           = exSelecting\<lparr>RecordFSM := StateRecordIdle, CurrentSection := [],
                         CurrentQuestion := 0, LastMessageID := 0\<rparr>"
    by (rule enterSelectingSection_edit_error [where r = 1 and err = exNotModified])
       (simp_all add: exConfig_def exSelecting_def exState_def exDraft_def exNotModifiedPort_def
          ex_not_contains)
  have q: "Questions (sectionAt exConfig ''a'') ! nat 1 = exQuestion ''q2'' ''P2'' ''k2''"
    by (simp add: ex_sectionAt_a)
  have g: "Get exEnvText ''text'' = Some (textStrategy exEnv)"
    by (simp add: Get_def normalize_def exEnvText_def exEnv_def)
  have m: "sectionsMap exConfig ''a'' = Some (sectionAt exConfig ''a'')"
    by (simp add: sectionsMap_def sectionAt_def exConfig_def)
  have a: "fst (askCurrentQuestion exEnvText exConfig 10 (exAnswering, exNotModifiedPort))
           = exAnswering\<lparr>LastMessageID := 10,
                LastPrompt := \<lparr>ChatID = 1, MessageID = 10, Transport = ''telegram'',
                                Payload = [], Meta = None\<rparr>\<rparr>"
    by (simp add: askCurrentQuestion_def Let_def exAnswering_def exState_def m q g
        ex_sectionAt_a exQuestion_def textStrategy_def textStrategy_Render_def
        EditMessage_def portCall_def exNotModifiedPort_def exNotModified_def)
  show ?thesis
    unfolding s a by (simp add: exNotModified_def exSelecting_def exAnswering_def)
qed

section \<open>Rating range of the text-and-rating strategy\<close>

text \<open>
  Claim C8. \<open>Validate\<close> checks each bound only against its own limit, and the two against
  each other only when both are configured. A question with only \<open>rating_min: 15\<close> passes,
  and its effective range, with the default maximum, is \<open>[15, 10]\<close>; a question with only
  \<open>rating_max: -3\<close> passes, and its effective range is \<open>[1, -3]\<close>. Neither range satisfies
  \<open>1 \<le> min \<le> max \<le> 20\<close>. With no bound configured the range is \<open>[1, 10]\<close>.
\<close>

theorem rating_range_not_validated_against_defaults:
  "TextRatingStrategy_Validate ''s'' exRatingMinOnly = None
   \<and> getRatingRange exRatingMinOnly = (15, 10)
   \<and> TextRatingStrategy_Validate ''s'' exRatingMaxOnly = None
   \<and> getRatingRange exRatingMaxOnly = (1, - 3)
   \<and> getRatingRange (exQuestion ''r0'' ''Rate'' ''rating0'') = (1, 10)"
  by (simp add: TextRatingStrategy_Validate_def getRatingRange_def exRatingMinOnly_def
      exRatingMaxOnly_def exQuestion_def)

section \<open>Schema validation and the section menu\<close>

lemma foldl_snoc_id: "foldl (\<lambda>keys k. keys @ [k]) acc ks = acc @ ks"
  by (induction ks arbitrary: acc) auto

lemma getSortedSectionIDs_eq: "getSortedSectionIDs ev rc = rangeOrder ev"
  by (simp add: getSortedSectionIDs_def foldl_snoc_id)

lemma validateSections_skips_empty:
  "\<forall>s \<in> set ks. Title (sectionAt rc s) \<noteq> [] \<Longrightarrow>
   validateSections validator rc ks seen
   = validateSections validator rc (filter (\<lambda>s. Questions (sectionAt rc s) \<noteq> []) ks) seen"
  by (induction ks arbitrary: seen) (auto simp: Let_def split: sum.splits)

lemma sectionHasData_no_questions: "Questions sc = [] \<Longrightarrow> \<not> sectionHasData sc d"
  by (simp add: sectionHasData_def split: option.splits)

text \<open>
  Claim C9. A schema with a section that has a title and no questions validates, provided
  every section has a title and the sections that do have questions validate (taken in
  the order the validation meets them): \<open>Validate\<close> skips a section without questions.
  The section menu still has a row with one button for that section, carrying its title
  and the payload \<open>section:\<close> followed by its identifier.
\<close>

theorem validate_accepts_empty_section:
  assumes order: "rangeOrderOf rc ks"
      and order': "rangeOrderOf rc (rangeOrder ev)"
      and sec: "sectionsMap rc sid = Some conf"
      and noqs: "Questions conf = []"
      and titles: "\<forall>s \<in> dom (sectionsMap rc). Title (sectionAt rc s) \<noteq> []"
      and others: "validateSections validator rc
                     (filter (\<lambda>s. Questions (sectionAt rc s) \<noteq> []) ks) [] = None"
  shows "Validate validator (Some rc) ks = None
         \<and> [ButtonData (Title conf) (CallbackSectionPrefix @ sid)]
             \<in> set (sectionKeyboard ev rc recordData)"
proof
  have "sid \<in> set ks" using order sec by (auto simp: rangeOrderOf_def)
  then have ne: "ks \<noteq> []" by auto
  have t: "\<forall>s \<in> set ks. Title (sectionAt rc s) \<noteq> []"
    using titles order by (simp add: rangeOrderOf_def)
  show "Validate validator (Some rc) ks = None"
    using ne others validateSections_skips_empty [OF t, of validator "[]"]
    by (simp add: Validate_def)
next
  have m: "sid \<in> set (rangeOrder ev)" using order' sec by (auto simp: rangeOrderOf_def)
  have s: "sectionAt rc sid = conf" using sec by (simp add: sectionAt_def)
  have "(\<lambda>sectionID.
            (let sectionConf = sectionAt rc sectionID;
                 hasData = sectionHasData sectionConf recordData;
                 buttonText = (if hasData then Title sectionConf @ checkMarkSuffix
                               else Title sectionConf)
             in [ButtonData buttonText (CallbackSectionPrefix @ sectionID)])) sid
        = [ButtonData (Title conf) (CallbackSectionPrefix @ sid)]"
    using s noqs sectionHasData_no_questions [of conf recordData] by (simp add: Let_def)
  then have "[ButtonData (Title conf) (CallbackSectionPrefix @ sid)]
             \<in> set (sectionButtonRows ev rc recordData)"
    unfolding sectionButtonRows_def getSortedSectionIDs_eq using m
    by (metis (no_types, lifting) image_eqI set_map)
  then show "[ButtonData (Title conf) (CallbackSectionPrefix @ sid)]
             \<in> set (sectionKeyboard ev rc recordData)"
    by (simp add: sectionKeyboard_def)
qed

theorem validate_accepts_empty_section_witness:
  "Questions (sectionAt exConfig ''b'') = []
   \<and> Validate None (Some exConfig) [''b'', ''a''] = None
   \<and> [ButtonData ''Section B'' ''section:b''] \<in> set (sectionKeyboard exEnv exConfig (Data exDraft))"
proof -
  have order: "rangeOrderOf exConfig [''b'', ''a'']"
    by (auto simp: rangeOrderOf_def ex_dom)
  have order': "rangeOrderOf exConfig (rangeOrder exEnv)"
    by (auto simp: rangeOrderOf_def ex_dom exEnv_def)
  have sec: "sectionsMap exConfig ''b'' = Some \<lparr>Title = ''Section B'', Questions = []\<rparr>"
    by (simp add: sectionsMap_def exConfig_def)
  have noqs: "Questions \<lparr>Title = ''Section B'', Questions = []\<rparr> = []" by simp
  have titles: "\<forall>s \<in> dom (sectionsMap exConfig). Title (sectionAt exConfig s) \<noteq> []"
    by (simp add: ex_dom ex_sectionAt_a ex_sectionAt_b)
  have others: "validateSections None exConfig
                  (filter (\<lambda>s. Questions (sectionAt exConfig s) \<noteq> []) [''b'', ''a'']) [] = None"
    by (simp add: ex_sectionAt_a ex_sectionAt_b exQuestion_def validateQuestionWithStrategy_def)
  show ?thesis
    using validate_accepts_empty_section [OF order order' sec noqs titles others,
            of "Data exDraft"]
    by (simp add: ex_sectionAt_b CallbackSectionPrefix_def)
qed

section \<open>List view\<close>

lemma wrap64_id: "- (2 ^ 63) \<le> x \<Longrightarrow> x < 2 ^ 63 \<Longrightarrow> wrap64 x = x"
  by (simp add: wrap64_def)

lemma listWindow_bounds:
  assumes "0 < totalRecords" and "listWindow offset totalRecords = (start, end)"
  shows "0 \<le> start \<and> start \<le> totalRecords \<and> end \<le> totalRecords"
  using assms by (auto simp: listWindow_def Let_def split: if_splits)

lemma listWindow_ordered:
  assumes "0 < totalRecords" and "0 \<le> offset" and "offset + 5 < 2 ^ 63"
      and "listWindow offset totalRecords = (start, end)"
  shows "0 \<le> start \<and> start \<le> end \<and> end \<le> totalRecords"
proof -
  have w: "wrap64 (offset + 5) = offset + 5"
    using assms(2,3) by (intro wrap64_id) auto
  show ?thesis
    using assms(1,2,4) unfolding listWindow_def Let_def w
    by (auto split: if_splits)
qed

lemma savedRecordsOf_total:
  "None \<notin> set rs \<Longrightarrow> \<exists>saved. savedRecordsOf h rs = Inr saved"
  by (induction h rs rule: savedRecordsOf.induct) auto

text \<open>The list renderer never writes the offset back.\<close>

lemma viewListHandler_keeps_offset:
  assumes "viewListHandler ev chatID messageID (us, p) = Inr (us1, p1)"
  shows "ListOffset us1 = ListOffset us"
proof (cases "savedRecordsOf (heap us) (Records us)")
  case (Inl pn)
  then show ?thesis using assms by (simp add: viewListHandler_def)
next
  case (Inr saved)
  show ?thesis
  proof (cases "saved = []")
    case True
    then show ?thesis
      using assms Inr
      by (auto simp: viewListHandler_def Let_def MainMenuFSM_Event_def split: if_splits)
  next
    case False
    obtain start "end" where w: "listWindow (ListOffset us) (int (length saved)) = (start, end)"
      by (metis prod.exhaust)
    show ?thesis
      using assms Inr False w
      by (simp add: viewListHandler_def Let_def split: if_splits)
  qed
qed

text \<open>With no nil entry among the records the list renderer returns.\<close>

lemma viewListHandler_returns:
  assumes "None \<notin> set (Records us)"
  shows "\<exists>us1 p1. viewListHandler ev chatID messageID (us, p) = Inr (us1, p1)"
proof -
  obtain saved where s: "savedRecordsOf (heap us) (Records us) = Inr saved"
    using savedRecordsOf_total [OF assms] by blast
  show ?thesis
  proof (cases "saved = []")
    case True
    then show ?thesis
      using s by (simp add: viewListHandler_def Let_def MainMenuFSM_Event_def)
  next
    case False
    then have t: "0 < int (length saved)" by simp
    obtain start "end" where w: "listWindow (ListOffset us) (int (length saved)) = (start, end)"
      by (metis prod.exhaust)
    have b: "0 \<le> start \<and> start \<le> int (length saved) \<and> end \<le> int (length saved)"
      using listWindow_bounds [OF t w] .
    show ?thesis
      using s False w b by (simp add: viewListHandler_def Let_def)
  qed
qed

lemma splitColon_list_nav: "splitColon (CallbackListNavPrefix @ nav) = (''list_nav'', Some nav)"
  by (simp add: CallbackListNavPrefix_def)

lemma handleCallbackQuery_list_nav:
  assumes "cqData query = CallbackListNavPrefix @ nav"
  shows "handleCallbackQuery ev rc query (us, p)
         = handleListNavCallback ev query nav
             (us, p\<lparr>calls := calls p @ [AnswerCallbackCall (cqID query) []]\<rparr>)"
  using assms
  by (simp add: handleCallbackQuery_def splitColon_list_nav AnswerCallback_snd
      CallbackListNavPrefix_def CallbackAnswerPrefix_def CallbackSectionPrefix_def
      CallbackActionPrefix_def)

text \<open>
  Claim C10, as amended. The offset is a 64-bit integer and \<open>next\<close> adds 5 to it with
  wrap-around, so the claim needs the offset to be at most \<open>2^63 - 6\<close>. For every user
  state with such an offset that is not negative, a dispatch of a list-navigation
  callback (\<open>next\<close>, \<open>back\<close> or \<open>tomenu\<close>) that returns leaves an offset that is not negative;
  \<open>back\<close>, in \<open>viewing-list\<close>, sets it to \<open>max (offset - 5) 0\<close>; and the bounds the list
  renderer derives from the new offset (when that too is at most \<open>2^63 - 6\<close>) and any
  positive number of saved records satisfy \<open>0 \<le> start \<le> end \<le> number of saved records\<close>.
\<close>

theorem list_offset_stays_nonnegative:
  assumes nav: "nav = ''next'' \<or> nav = ''back'' \<or> nav = ''tomenu''"
      and data: "cqData query = CallbackListNavPrefix @ nav"
      and lo: "0 \<le> ListOffset us" and hi: "ListOffset us + 5 < 2 ^ 63"
      and returns: "handleCallbackQuery ev rc query (us, p) = Inr (us', p')"
  shows "0 \<le> ListOffset us'
         \<and> (MainMenuFSM us = StateViewingList \<and> nav = ''back''
              \<longrightarrow> ListOffset us' = max (ListOffset us - 5) 0)
         \<and> (\<forall>totalRecords start end.
               0 < totalRecords \<and> ListOffset us' + 5 < 2 ^ 63
               \<and> listWindow (ListOffset us') totalRecords = (start, end)
               \<longrightarrow> 0 \<le> start \<and> start \<le> end \<and> end \<le> totalRecords)"
proof -
  let ?p0 = "p\<lparr>calls := calls p @ [AnswerCallbackCall (cqID query) []]\<rparr>"
  have r: "handleListNavCallback ev query nav (us, ?p0) = Inr (us', p')"
    using handleCallbackQuery_list_nav [OF data, of ev rc us p] returns by simp
  have core: "0 \<le> ListOffset us'
           \<and> (MainMenuFSM us = StateViewingList \<and> nav = ''back''
                \<longrightarrow> ListOffset us' = max (ListOffset us - 5) 0)"
  proof (cases "MainMenuFSM us = StateViewingList")
    case False
    then show ?thesis using r lo by (auto simp: handleListNavCallback_def Let_def)
  next
    case True
    consider (n) "nav = ''next''" | (b) "nav = ''back''" | (t) "nav = ''tomenu''"
      using nav by blast
    then show ?thesis
    proof cases
      case n
      have w: "wrap64 (ListOffset us + 5) = ListOffset us + 5"
        using lo hi by (intro wrap64_id) auto
      have "viewListHandler ev (cqChatID query) (cqMessageID query)
              (us\<lparr>ListOffset := ListOffset us + 5\<rparr>, ?p0) = Inr (us', p')"
        using r True n w by (simp add: handleListNavCallback_def Let_def)
      from viewListHandler_keeps_offset [OF this]
      show ?thesis using n lo by simp
    next
      case b
      have w: "wrap64 (ListOffset us - 5) = ListOffset us - 5"
        using lo hi by (intro wrap64_id) auto
      have "viewListHandler ev (cqChatID query) (cqMessageID query)
              (us\<lparr>ListOffset := (if ListOffset us - 5 < 0 then 0 else ListOffset us - 5)\<rparr>, ?p0)
            = Inr (us', p')"
        using r True b w by (simp add: handleListNavCallback_def Let_def)
      from viewListHandler_keeps_offset [OF this]
      show ?thesis by (simp add: max_def)
    next
      case t
      then show ?thesis
        using r True lo
        by (auto simp: handleListNavCallback_def Let_def sendMainMenu_def MainMenuFSM_Event_def)
    qed
  qed
  then have z: "0 \<le> ListOffset us'" by simp
  have win: "\<forall>totalRecords start end.
               0 < totalRecords \<and> ListOffset us' + 5 < 2 ^ 63
               \<and> listWindow (ListOffset us') totalRecords = (start, end)
               \<longrightarrow> 0 \<le> start \<and> start \<le> end \<and> end \<le> totalRecords"
    using listWindow_ordered z by blast
  show ?thesis
    by (intro conjI) (rule z, rule conjunct2 [OF core], rule win)
qed

lemma exViewing_returns:
  "\<exists>us' p'. handleCallbackQuery exEnv exConfig (exNavQuery nav) (exViewing\<lparr>ListOffset := k\<rparr>, exPort)
            = Inr (us', p')"
proof -
  have d: "cqData (exNavQuery nav) = CallbackListNavPrefix @ nav"
    by (simp add: exNavQuery_def CallbackListNavPrefix_def)
  have v: "MainMenuFSM (exViewing\<lparr>ListOffset := k\<rparr>) = StateViewingList"
    by (simp add: exViewing_def)
  have nn: "\<And>j. None \<notin> set (Records (exViewing\<lparr>ListOffset := j\<rparr>))"
    by (simp add: exViewing_def exState_def)
  show ?thesis
    unfolding handleCallbackQuery_list_nav [OF d]
    using v viewListHandler_returns [OF nn]
    by (simp add: handleListNavCallback_def Let_def sendMainMenu_def)
qed

theorem list_offset_stays_nonnegative_witness:
  "\<exists>us' p'. handleCallbackQuery exEnv exConfig (exNavQuery ''back'') (exViewing, exPort)
              = Inr (us', p')
     \<and> ListOffset exViewing = 7 \<and> ListOffset us' = 2 \<and> listWindow (ListOffset us') 1 = (0, 1)"
proof -
  obtain us' p' where
    r: "handleCallbackQuery exEnv exConfig (exNavQuery ''back'') (exViewing, exPort)
        = Inr (us', p')"
    using exViewing_returns [of "''back''" 7] by (auto simp: exViewing_def)
  have nav: "''back'' = ''next'' \<or> ''back'' = ''back'' \<or> ''back'' = ''tomenu''" by simp
  have d: "cqData (exNavQuery ''back'') = CallbackListNavPrefix @ ''back''"
    by (simp add: exNavQuery_def CallbackListNavPrefix_def)
  have lo: "0 \<le> ListOffset exViewing" and hi: "ListOffset exViewing + 5 < 2 ^ 63"
    and v: "MainMenuFSM exViewing = StateViewingList" and o: "ListOffset exViewing = 7"
    by (simp_all add: exViewing_def)
  have "ListOffset us' = 2"
    using list_offset_stays_nonnegative [OF nav d lo hi r] v o by simp
  moreover have "listWindow 2 1 = (0, 1)"
    by (simp add: listWindow_def wrap64_def)
  ultimately show ?thesis using r o by simp
qed

text \<open>As stated, for every offset that is not negative, the claim fails at the offset
  \<open>2^63 - 3\<close>, the largest multiple of 5 below \<open>2^63\<close>: \<open>next\<close> wraps it around to a negative
  one.\<close>

theorem list_offset_overflow_counterexample:
  "0 \<le> ListOffset exOverflowing
   \<and> \<not> isl (handleCallbackQuery exEnv exConfig (exNavQuery ''next'') (exOverflowing, exPort))
   \<and> ListOffset (fst (projr (handleCallbackQuery exEnv exConfig (exNavQuery ''next'')
                                (exOverflowing, exPort)))) = - 9223372036854775806"
proof -
  have d: "cqData (exNavQuery ''next'') = CallbackListNavPrefix @ ''next''"
    by (simp add: exNavQuery_def CallbackListNavPrefix_def)
  have o: "exOverflowing = exViewing\<lparr>ListOffset := 9223372036854775805\<rparr>"
    by (simp add: exOverflowing_def)
  obtain us' p' where
    r: "handleCallbackQuery exEnv exConfig (exNavQuery ''next'') (exOverflowing, exPort)
        = Inr (us', p')"
    using exViewing_returns [of "''next''" 9223372036854775805] by (auto simp: o)
  have w: "wrap64 (9223372036854775805 + 5) = - 9223372036854775806"
    by (simp add: wrap64_def)
  have "viewListHandler exEnv (cqChatID (exNavQuery ''next'')) (cqMessageID (exNavQuery ''next''))
          (exOverflowing\<lparr>ListOffset := - 9223372036854775806\<rparr>,
           exPort\<lparr>calls := calls exPort @ [AnswerCallbackCall (cqID (exNavQuery ''next'')) []]\<rparr>)
        = Inr (us', p')"
    using r w unfolding handleCallbackQuery_list_nav [OF d]
    by (simp add: handleListNavCallback_def Let_def exOverflowing_def exViewing_def)
  from viewListHandler_keeps_offset [OF this]
  have "ListOffset us' = - 9223372036854775806" by simp
  then show ?thesis using r by (simp add: exOverflowing_def)
qed

end
